theory Spec2Isabelle
  imports Complex_Main "HOL-Library.Multiset"
begin

section \<open>Strings\<close>

text \<open>
  The search library of \<^verbatim>\<open>src/lib/search.ts\<close> works on JavaScript strings. They are
  modelled as \<open>string\<close> (lists of 8-bit characters) read as ASCII: \<open>toLowerCase\<close> maps
  \<open>A\<close>..\<open>Z\<close> to \<open>a\<close>..\<open>z\<close> and leaves every other character alone, and the white
  space of \<open>trim\<close> and of the regular expression \<open>\s\<close> is the ASCII white space (space,
  tab, line feed, vertical tab, form feed, carriage return). Case mapping and white space
  beyond ASCII are outside the model.
\<close>

definition isWhiteSpace :: "char \<Rightarrow> bool" where
  "isWhiteSpace c \<longleftrightarrow>
     c = CHR '' '' \<or> c = CHR 0x09 \<or> c = CHR 0x0A \<or> c = CHR 0x0B \<or> c = CHR 0x0C \<or> c = CHR 0x0D"

definition trim :: "string \<Rightarrow> string" where
  "trim s = rev (dropWhile isWhiteSpace (rev (dropWhile isWhiteSpace s)))"

definition lowerChar :: "char \<Rightarrow> char" where
  "lowerChar c =
     (case map_of (zip ''ABCDEFGHIJKLMNOPQRSTUVWXYZ'' ''abcdefghijklmnopqrstuvwxyz'') c of
        Some d \<Rightarrow> d
      | None \<Rightarrow> c)"

definition toLowerCase :: "string \<Rightarrow> string" where
  "toLowerCase s = map lowerChar s"

definition startsWith :: "string \<Rightarrow> string \<Rightarrow> bool" where
  "startsWith s p \<longleftrightarrow> take (length p) s = p"

text \<open>\<open>includesStr s w\<close> is \<^verbatim>\<open>s.includes(w)\<close>: \<open>w\<close> occurs in \<open>s\<close> as a substring.\<close>

fun includesStr :: "string \<Rightarrow> string \<Rightarrow> bool" where
  "includesStr [] w = (w = [])"
| "includesStr (c # cs) w = (startsWith (c # cs) w \<or> includesStr cs w)"

text \<open>
  \<open>splitOn sep s\<close> is \<^verbatim>\<open>s.split(/[sep]+/)\<close>: the pieces between the maximal runs of
  separator characters. As in JavaScript a leading or trailing run leaves an empty piece,
  and the empty string splits into one empty piece.
\<close>

fun splitOn :: "(char \<Rightarrow> bool) \<Rightarrow> string \<Rightarrow> string list" where
  "splitOn sep [] = [[]]"
| "splitOn sep (c # cs) =
     (if sep c then
        (case cs of
           [] \<Rightarrow> [[], []]
         | d # ds \<Rightarrow> if sep d then splitOn sep cs else [] # splitOn sep cs)
      else
        (case splitOn sep cs of
           [] \<Rightarrow> [[c]]
         | w # ws \<Rightarrow> (c # w) # ws))"

definition splitWhitespace :: "string \<Rightarrow> string list" where
  "splitWhitespace s = splitOn isWhiteSpace s"

definition splitWhitespaceComma :: "string \<Rightarrow> string list" where
  "splitWhitespaceComma s = splitOn (\<lambda>c. isWhiteSpace c \<or> c = CHR '','') s"

section \<open>Numbers\<close>

text \<open>
  A JavaScript number is \<open>NaN\<close>, an infinity, or a finite value. Finite values are
  modelled by the real number they denote, so the rounding of double arithmetic is not
  part of the model (and \<open>-0\<close> is \<open>0\<close>); the comparisons and the special values behave as
  in IEEE 754.
\<close>

datatype number = NaN | NegInf | Fin real | PosInf

fun isNaN :: "number \<Rightarrow> bool" where
  "isNaN NaN = True"
| "isNaN _ = False"

fun num_neg :: "number \<Rightarrow> number" where
  "num_neg NaN = NaN"
| "num_neg NegInf = PosInf"
| "num_neg PosInf = NegInf"
| "num_neg (Fin a) = Fin (- a)"

fun num_add :: "number \<Rightarrow> number \<Rightarrow> number" where
  "num_add (Fin a) (Fin b) = Fin (a + b)"
| "num_add NaN _ = NaN"
| "num_add _ NaN = NaN"
| "num_add PosInf NegInf = NaN"
| "num_add NegInf PosInf = NaN"
| "num_add PosInf _ = PosInf"
| "num_add _ PosInf = PosInf"
| "num_add NegInf _ = NegInf"
| "num_add _ NegInf = NegInf"

definition num_sub :: "number \<Rightarrow> number \<Rightarrow> number" where
  "num_sub a b = num_add a (num_neg b)"

fun num_lt :: "number \<Rightarrow> number \<Rightarrow> bool" where
  "num_lt (Fin a) (Fin b) = (a < b)"
| "num_lt NaN _ = False"
| "num_lt _ NaN = False"
| "num_lt PosInf _ = False"
| "num_lt _ NegInf = False"
| "num_lt NegInf _ = True"
| "num_lt _ PosInf = True"

definition num_gt :: "number \<Rightarrow> number \<Rightarrow> bool" where
  "num_gt a b = num_lt b a"

text \<open>Truthiness of a number, and \<^verbatim>\<open>x || d\<close> on numbers.\<close>

definition truthy :: "number \<Rightarrow> bool" where
  "truthy n \<longleftrightarrow> n \<noteq> NaN \<and> n \<noteq> Fin 0"

definition num_or :: "number \<Rightarrow> number \<Rightarrow> number" where
  "num_or n d = (if truthy n then n else d)"

subsection \<open>parseFloat\<close>

text \<open>
  The built-in \<^verbatim>\<open>parseFloat\<close>, after ECMAScript: leading white space is skipped, then
  the longest prefix that is a decimal literal is read (an optional sign, then
  \<open>Infinity\<close>, or digits with an optional fraction and an optional exponent); what follows
  the literal is ignored, and a string with no such prefix gives \<open>NaN\<close>. The value is the
  exact value of the decimal: the rounding of the literal to a double, and with it the
  overflow of a literal beyond the range of doubles to an infinity, is not part of the
  model.
\<close>

definition isDigit :: "char \<Rightarrow> bool" where
  "isDigit c \<longleftrightarrow> c \<in> set ''0123456789''"

definition digitsVal :: "string \<Rightarrow> nat" where
  "digitsVal ds = foldl (\<lambda>n c. 10 * n + (of_char c - 48)) 0 ds"

definition readSign :: "string \<Rightarrow> bool \<times> string" where
  "readSign s =
     (case s of
        [] \<Rightarrow> (False, s)
      | c # r \<Rightarrow> if c = CHR ''-'' then (True, r) else if c = CHR ''+'' then (False, r) else (False, s))"

definition readExponent :: "string \<Rightarrow> int" where
  "readExponent s =
     (case s of
        [] \<Rightarrow> 0
      | c # r \<Rightarrow>
          if c = CHR ''e'' \<or> c = CHR ''E'' then
            (let (neg, d) = readSign r; ds = takeWhile isDigit d
             in if ds = [] then 0 else if neg then - int (digitsVal ds) else int (digitsVal ds))
          else 0)"

definition scale10 :: "real \<Rightarrow> int \<Rightarrow> real" where
  "scale10 m e = (if 0 \<le> e then m * 10 ^ nat e else m / 10 ^ nat (- e))"

definition parseFloat :: "string \<Rightarrow> number" where
  "parseFloat s =
     (let (neg, u) = readSign (dropWhile isWhiteSpace s) in
      if startsWith u ''Infinity'' then (if neg then NegInf else PosInf)
      else
        let ip = takeWhile isDigit u;
            r1 = dropWhile isDigit u;
            (fp, r2) =
              (case r1 of
                 [] \<Rightarrow> ([], r1)
               | c # r \<Rightarrow>
                   if c = CHR ''.'' then (takeWhile isDigit r, dropWhile isDigit r) else ([], r1))
        in if ip = [] \<and> fp = [] then NaN
           else
             let m = scale10 (real (digitsVal (ip @ fp))) (readExponent r2 - int (length fp))
             in Fin (if neg then - m else m))"

section \<open>Sorting\<close>

text \<open>
  \<^verbatim>\<open>Array.prototype.sort\<close> with a comparator. ECMAScript requires the sort to be stable, and
  a comparator result that is positive moves the first argument behind the second; zero,
  a negative number and \<open>NaN\<close> do not. For a consistent comparator this fixes the
  result, and it is the result of the stable insertion sort below. For an inconsistent
  comparator the language leaves the order to the implementation; the model then gives
  one of the possible orders.
\<close>

fun insertBy :: "('a \<Rightarrow> 'a \<Rightarrow> number) \<Rightarrow> 'a \<Rightarrow> 'a list \<Rightarrow> 'a list" where
  "insertBy cmp x [] = [x]"
| "insertBy cmp x (y # ys) =
     (if num_gt (cmp x y) (Fin 0) then y # insertBy cmp x ys else x # y # ys)"

definition sortBy :: "('a \<Rightarrow> 'a \<Rightarrow> number) \<Rightarrow> 'a list \<Rightarrow> 'a list" where
  "sortBy cmp xs = foldr (insertBy cmp) xs []"

text \<open>
  \<^verbatim>\<open>xs.slice(0, end)\<close>: \<open>end\<close> is truncated to an integer (\<open>NaN\<close> counts as \<open>0\<close>), and a
  negative \<open>end\<close> counts from the end of the list.
\<close>

definition truncateToInt :: "real \<Rightarrow> int" where
  "truncateToInt r = (if 0 \<le> r then \<lfloor>r\<rfloor> else \<lceil>r\<rceil>)"

fun slice0 :: "'a list \<Rightarrow> number \<Rightarrow> 'a list" where
  "slice0 xs NaN = []"
| "slice0 xs NegInf = []"
| "slice0 xs PosInf = xs"
| "slice0 xs (Fin r) =
     (let n = truncateToInt r in
      if n < 0 then take (nat (int (length xs) + n)) xs else take (nat n) xs)"

section \<open>Course ranker\<close>

datatype category = Safe | Target | Reach | Unknown

record course =
  code :: string
  name :: string
  rank :: string
  institution :: string
  campus :: string

record enrichedCourse = course +
  category :: category
  rankNum :: number
  searchText :: string

text \<open>
  The body of the callback of \<^verbatim>\<open>enrichCourses\<close>: \<open>category\<close> starts as \<open>unknown\<close> and
  \<open>rankNum\<close> as \<open>0\<close>; for a rank other than the three codes, \<open>rankNum\<close> is assigned the
  result of \<open>parseFloat\<close> before it is tested with \<open>isNaN\<close>. The comparisons with
  \<open>atar - 5\<close> and \<open>atar + 5\<close> are those of the code, but on exact values: the code
  rounds the difference and the sum to doubles, so that at \<open>atar = 64.15\<close> the rank
  \<open>59.15\<close> is below the rounded \<open>atar - 5\<close> and is classified \<open>safe\<close> by the code, where
  the exact difference gives \<open>target\<close>. The model agrees with the code where the arithmetic
  of doubles is exact, as it is at the integer ranks and scores of the inputs evaluated
  below; for a rank within rounding distance of a boundary the category of the model can
  differ from that of the code.
\<close>

definition classify :: "number \<Rightarrow> string \<Rightarrow> category \<times> number" where
  "classify atar r =
     (if r = ''N/P'' \<or> r = ''L/N'' \<or> r = ''RC'' then (Unknown, Fin 0)
      else
        let rankNum = parseFloat r in
        if \<not> isNaN rankNum then
          (if num_lt rankNum (num_sub atar (Fin 5)) then (Safe, rankNum)
           else if num_gt rankNum (num_add atar (Fin 5)) then (Reach, rankNum)
           else (Target, rankNum))
        else (Unknown, rankNum))"

definition enrichCourse :: "number \<Rightarrow> course \<Rightarrow> enrichedCourse" where
  "enrichCourse atar c =
     (let (cat, rn) = classify atar (course.rank c) in
      \<lparr>course.code = course.code c, course.name = course.name c, course.rank = course.rank c,
       course.institution = course.institution c, course.campus = course.campus c,
       enrichedCourse.category = cat, enrichedCourse.rankNum = rn,
       enrichedCourse.searchText =
         course.institution c @ '' '' @ course.name c @ '' '' @ course.code c\<rparr>)"

definition enrichCourses :: "course list \<Rightarrow> number \<Rightarrow> enrichedCourse list" where
  "enrichCourses courses atar = map (enrichCourse atar) courses"

text \<open>
  \<^verbatim>\<open>wordBasedSearch\<close>. The words are the pieces of the lowercased term of length at
  least 2. The score of a course is accumulated over the words by the chain of
  \<^verbatim>\<open>if ... else if\<close> tests, and the scored courses are sorted by the comparator
  \<^verbatim>\<open>(a, b) => b.score - a.score\<close>.
\<close>

definition qualifyingWords :: "string \<Rightarrow> string list" where
  "qualifyingWords s = filter (\<lambda>w. 2 \<le> length w) (splitWhitespace s)"

definition courseMatches :: "string list \<Rightarrow> enrichedCourse \<Rightarrow> bool" where
  "courseMatches ws c =
     (let text = toLowerCase (enrichedCourse.searchText c)
      in list_all (\<lambda>word. includesStr text word) ws)"

definition courseScore :: "string list \<Rightarrow> enrichedCourse \<Rightarrow> int" where
  "courseScore ws c =
     foldl (\<lambda>score word.
        if toLowerCase (course.institution c) = word then score + 100
        else if toLowerCase (course.name c) = word then score + 90
        else if startsWith (toLowerCase (course.institution c)) word then score + 50
        else if startsWith (toLowerCase (course.name c)) word then score + 40
        else if includesStr (toLowerCase (course.institution c)) ('' '' @ word) then score + 20
        else if includesStr (toLowerCase (course.name c)) ('' '' @ word) then score + 15
        else score + 1) 0 ws"

definition wordBasedSearch :: "enrichedCourse list \<Rightarrow> string \<Rightarrow> enrichedCourse list" where
  "wordBasedSearch courses searchTerm =
     (let ws = qualifyingWords (toLowerCase searchTerm) in
      if ws = [] then courses
      else
        let matches = filter (courseMatches ws) courses in
        if matches = [] then []
        else
          let scored = map (\<lambda>c. (c, courseScore ws c)) matches
          in map fst (sortBy (\<lambda>a b. Fin (of_int (snd b - snd a))) scored))"

text \<open>
  The scoring rule in the words of the specification: the tiers in priority order, and
  for a word the points of the first tier that applies, or 1 when none does.
\<close>

definition tiers :: "enrichedCourse \<Rightarrow> string \<Rightarrow> (bool \<times> int) list" where
  "tiers c w =
     [(toLowerCase (course.institution c) = w, 100),
      (toLowerCase (course.name c) = w, 90),
      (startsWith (toLowerCase (course.institution c)) w, 50),
      (startsWith (toLowerCase (course.name c)) w, 40),
      (includesStr (toLowerCase (course.institution c)) ('' '' @ w), 20),
      (includesStr (toLowerCase (course.name c)) ('' '' @ w), 15)]"

definition firstTier :: "enrichedCourse \<Rightarrow> string \<Rightarrow> int" where
  "firstTier c w = (case find fst (tiers c w) of Some t \<Rightarrow> snd t | None \<Rightarrow> 1)"

section \<open>Fuzzy matcher and match cache\<close>

record searchOptions =
  keys :: "(string \<times> number option) list"
  threshold :: "number option"
  minMatchCharLength :: "number option"
  shouldSort :: "bool option"
  includeScore :: "bool option"
  ignoreLocation :: "bool option"
  distance :: "number option"

definition DEFAULT_SEARCH_OPTIONS :: searchOptions where
  "DEFAULT_SEARCH_OPTIONS =
     \<lparr>keys = [], threshold = Some (Fin 0.3), minMatchCharLength = Some (Fin 1),
      shouldSort = Some True, includeScore = Some True, ignoreLocation = Some True,
      distance = Some (Fin 100)\<rparr>"

text \<open>
  The object spread \<^verbatim>\<open>{...DEFAULT_SEARCH_OPTIONS, ...options}\<close>: a property that \<open>options\<close>
  has wins over the default; \<open>keys\<close> is required, so it always does.
\<close>

definition orDefault :: "'a option \<Rightarrow> 'a option \<Rightarrow> 'a option" where
  "orDefault given dflt = (case given of Some v \<Rightarrow> Some v | None \<Rightarrow> dflt)"

definition mergeOptions :: "searchOptions \<Rightarrow> searchOptions \<Rightarrow> searchOptions" where
  "mergeOptions dflt options =
     \<lparr>keys = keys options,
      threshold = orDefault (threshold options) (threshold dflt),
      minMatchCharLength = orDefault (minMatchCharLength options) (minMatchCharLength dflt),
      shouldSort = orDefault (shouldSort options) (shouldSort dflt),
      includeScore = orDefault (includeScore options) (includeScore dflt),
      ignoreLocation = orDefault (ignoreLocation options) (ignoreLocation dflt),
      distance = orDefault (distance options) (distance dflt)\<rparr>"

text \<open>
  A Fuse index is the collection it was built over and its configuration. Searching an
  index, and \<^verbatim>\<open>JSON.stringify\<close> in the cache key, belong to the library and the language;
  they are parameters of the model (\<open>fuse_search\<close>, \<open>json_stringify\<close>), and the theorems
  hold for all of them. The cache maps keys to entries. The two readings of
  \<^verbatim>\<open>Date.now()\<close> in \<^verbatim>\<open>createFuzzySearch\<close>, one in the sweep and one when an entry is
  stored, are the two components of the \<open>clock\<close> argument, in milliseconds. The cache of the
  model holds indexes over one type of item.
\<close>

record 'a fuse =
  docs :: "'a list"
  config :: searchOptions

record 'a fuseResult =
  item :: 'a
  refIndex :: nat
  score :: "number option"

record 'a cachedSearch =
  fuse :: "'a fuse"
  timestamp :: int

type_synonym ('k, 'a) searchCache = "'k \<Rightarrow> 'a cachedSearch option"

record ('k, 'a) externals =
  fuse_search :: "'a fuse \<Rightarrow> string \<Rightarrow> 'a fuseResult list"
  json_stringify :: "nat \<times> searchOptions \<Rightarrow> 'k"

definition CACHE_TTL :: int where
  "CACHE_TTL = 5 * 60 * 1000"

definition getCacheKey :: "('k, 'a) externals \<Rightarrow> 'a list \<Rightarrow> searchOptions \<Rightarrow> 'k" where
  "getCacheKey ext data options = json_stringify ext (length data, options)"

definition clearExpiredCache :: "int \<Rightarrow> ('k, 'a) searchCache \<Rightarrow> ('k, 'a) searchCache" where
  "clearExpiredCache now cache =
     (\<lambda>key. case cache key of
               None \<Rightarrow> None
             | Some v \<Rightarrow> if now - timestamp v > CACHE_TTL then None else Some v)"

definition clearSearchCache :: "('k, 'a) searchCache" where
  "clearSearchCache = (\<lambda>key. None)"

definition newFuse :: "'a list \<Rightarrow> searchOptions \<Rightarrow> 'a fuse" where
  "newFuse data options = \<lparr>docs = data, config = mergeOptions DEFAULT_SEARCH_OPTIONS options\<rparr>"

definition createFuzzySearch ::
  "('k, 'a) externals \<Rightarrow> int \<times> int \<Rightarrow> 'a list \<Rightarrow> searchOptions \<Rightarrow> ('k, 'a) searchCache
     \<Rightarrow> 'a fuse \<times> ('k, 'a) searchCache" where
  "createFuzzySearch ext clock data options cache =
     (let cache1 = clearExpiredCache (fst clock) cache;
          cacheKey = getCacheKey ext data options
      in case cache1 cacheKey of
           Some cached \<Rightarrow> (fuse cached, cache1)
         | None \<Rightarrow>
             let f = newFuse data options
             in (f, cache1(cacheKey \<mapsto> \<lparr>fuse = f, timestamp = snd clock\<rparr>)))"

definition minLength :: "searchOptions \<Rightarrow> number" where
  "minLength options =
     (case minMatchCharLength options of None \<Rightarrow> Fin 1 | Some m \<Rightarrow> num_or m (Fin 1))"

definition fuzzySearch ::
  "('k, 'a) externals \<Rightarrow> int \<times> int \<Rightarrow> 'a list \<Rightarrow> string \<Rightarrow> searchOptions \<Rightarrow> ('k, 'a) searchCache
     \<Rightarrow> 'a list \<times> ('k, 'a) searchCache" where
  "fuzzySearch ext clock data query options cache =
     (if query = [] \<or> length (trim query) = 0 then (data, cache)
      else
        let trimmedQuery = trim query in
        if num_lt (Fin (real (length trimmedQuery))) (minLength options) then ([], cache)
        else
          let (f, cache') = createFuzzySearch ext clock data options cache
          in (map item (fuse_search ext f trimmedQuery), cache'))"

section \<open>Hybrid search\<close>

text \<open>
  The items are of any type; \<open>field item key\<close> is the dynamic property access
  \<^verbatim>\<open>item[key]\<close>, a string or something else. \<^verbatim>\<open>exactMatches.includes(item)\<close> compares
  items with the equality of their type, which is identity when the items are
  references.
\<close>

datatype jsval = JString string | JOther

fun exactKeyMatch :: "('a \<Rightarrow> string \<Rightarrow> jsval) \<Rightarrow> string \<Rightarrow> 'a \<Rightarrow> string list \<Rightarrow> bool" where
  "exactKeyMatch field trimmedQuery it [] = False"
| "exactKeyMatch field trimmedQuery it (key # rest) =
     (case field it key of
        JString v \<Rightarrow>
          if v \<noteq> [] then
            (if toLowerCase v = trimmedQuery then True
             else if startsWith (toLowerCase v) trimmedQuery then True
             else exactKeyMatch field trimmedQuery it rest)
          else exactKeyMatch field trimmedQuery it rest
      | JOther \<Rightarrow> exactKeyMatch field trimmedQuery it rest)"

definition partitionExact ::
  "('a \<Rightarrow> string \<Rightarrow> jsval) \<Rightarrow> string \<Rightarrow> string list \<Rightarrow> 'a list \<Rightarrow> 'a list \<times> 'a list" where
  "partitionExact field trimmedQuery exactMatchKeys data =
     foldl (\<lambda>(exactMatches, fuzzyMatches) item.
        if exactKeyMatch field trimmedQuery item exactMatchKeys
        then (exactMatches @ [item], fuzzyMatches)
        else (exactMatches, fuzzyMatches @ [item])) ([], []) data"

definition hybridSearch ::
  "('k, 'a) externals \<Rightarrow> ('a \<Rightarrow> string \<Rightarrow> jsval) \<Rightarrow> int \<times> int \<Rightarrow> 'a list \<Rightarrow> string
     \<Rightarrow> searchOptions \<Rightarrow> string list \<Rightarrow> ('k, 'a) searchCache \<Rightarrow> 'a list \<times> ('k, 'a) searchCache" where
  "hybridSearch ext field clock data query options exactMatchKeys cache =
     (if query = [] \<or> length (trim query) = 0 then (data, cache)
      else
        let trimmedQuery = toLowerCase (trim query);
            (exactMatches, fuzzyMatches) = partitionExact field trimmedQuery exactMatchKeys data
        in if length exactMatches = 0 then fuzzySearch ext clock data query options cache
           else
             let (found, cache') = fuzzySearch ext clock fuzzyMatches query options cache;
                 fuzzyResults = filter (\<lambda>it. it \<notin> set exactMatches) found
             in (exactMatches @ fuzzyResults, cache'))"

text \<open>
  The exact-match rule in the words of the specification: some key has a string value
  that, lowercased, equals the query or starts with it.
\<close>

definition isExactMatch :: "('a \<Rightarrow> string \<Rightarrow> jsval) \<Rightarrow> string \<Rightarrow> string list \<Rightarrow> 'a \<Rightarrow> bool" where
  "isExactMatch field q exactKeys it =
     list_ex (\<lambda>key. case field it key of
                      JString v \<Rightarrow> toLowerCase v = q \<or> startsWith (toLowerCase v) q
                    | JOther \<Rightarrow> False) exactKeys"

section \<open>Course search\<close>

datatype categoryFilter = FilterAll | FilterSafe | FilterTarget | FilterReach

fun hasCategory :: "categoryFilter \<Rightarrow> category \<Rightarrow> bool" where
  "hasCategory FilterSafe Safe = True"
| "hasCategory FilterTarget Target = True"
| "hasCategory FilterReach Reach = True"
| "hasCategory _ _ = False"

record courseSearchOptions =
  searchTerm :: "string option"
  category :: "categoryFilter option"
  atar :: "number option"
  limit :: "number option"

definition courseFuzzyOptions :: searchOptions where
  "courseFuzzyOptions =
     \<lparr>keys = [(''searchText'', Some (Fin 2)), (''name'', Some (Fin 1.5)),
              (''institution'', Some (Fin 1.5)), (''code'', Some (Fin 1))],
      threshold = Some (Fin 0.4), minMatchCharLength = Some (Fin 2),
      shouldSort = None, includeScore = None, ignoreLocation = None, distance = None\<rparr>"

definition atarOf :: "courseSearchOptions \<Rightarrow> number" where
  "atarOf options = (case courseSearchOptions.atar options of Some a \<Rightarrow> a | None \<Rightarrow> Fin 0)"

definition applyCategory :: "courseSearchOptions \<Rightarrow> enrichedCourse list \<Rightarrow> enrichedCourse list" where
  "applyCategory options results =
     (case courseSearchOptions.category options of
        None \<Rightarrow> results
      | Some cat \<Rightarrow>
          if cat \<noteq> FilterAll
          then filter (\<lambda>c. hasCategory cat (enrichedCourse.category c)) results
          else results)"

definition rankComparator :: "enrichedCourse \<Rightarrow> enrichedCourse \<Rightarrow> number" where
  "rankComparator a b =
     (if enrichedCourse.category a = Unknown \<and> enrichedCourse.category b \<noteq> Unknown then Fin 1
      else if enrichedCourse.category a \<noteq> Unknown \<and> enrichedCourse.category b = Unknown
      then Fin (- 1)
      else num_sub (enrichedCourse.rankNum b) (enrichedCourse.rankNum a))"

definition applyLimit :: "courseSearchOptions \<Rightarrow> enrichedCourse list \<Rightarrow> enrichedCourse list" where
  "applyLimit options results =
     (case courseSearchOptions.limit options of
        None \<Rightarrow> results
      | Some l \<Rightarrow> if truthy l \<and> num_gt l (Fin 0) then slice0 results l else results)"

definition searchCourses ::
  "('k, enrichedCourse) externals \<Rightarrow> int \<times> int \<Rightarrow> course list \<Rightarrow> courseSearchOptions
     \<Rightarrow> ('k, enrichedCourse) searchCache \<Rightarrow> enrichedCourse list \<times> ('k, enrichedCourse) searchCache" where
  "searchCourses ext clock courses options cache =
     (let enriched = enrichCourses courses (atarOf options);
          (results, cache') =
            (case searchTerm options of
               None \<Rightarrow> (enriched, cache)
             | Some term \<Rightarrow>
                 if term \<noteq> [] \<and> trim term \<noteq> [] then
                   let trimmed = trim term;
                       wordMatches = wordBasedSearch enriched trimmed;
                       isMultiWord =
                         (length (filter (\<lambda>w. 2 \<le> length w) (splitWhitespace trimmed)) > 1)
                   in if length wordMatches > 0 \<and> (isMultiWord \<or> length wordMatches \<ge> 3)
                      then (wordMatches, cache)
                      else
                        let (f, c) = createFuzzySearch ext clock enriched courseFuzzyOptions cache
                        in (map item (fuse_search ext f trimmed), c)
                 else (enriched, cache));
          filtered = applyCategory options results;
          ordered =
            (if searchTerm options = None \<or> searchTerm options = Some []
             then sortBy rankComparator filtered
             else filtered)
      in (applyLimit options ordered, cache'))"

section \<open>Subject ranker\<close>

text \<open>
  A subject; \<open>searchText\<close> is the property that \<^verbatim>\<open>searchSubjects\<close> adds to its copies of
  the subjects, absent on the records a caller passes. The aliases are the entries of the
  alias object in the order \<^verbatim>\<open>Object.entries\<close> yields them.
\<close>

record subject =
  code :: string
  name :: string
  mean :: "number option"
  stdev :: "number option"
  scaling :: "(string \<times> number) list"
  searchText :: "string option"

record subjectSearchOptions =
  query :: string
  aliases :: "(string \<times> string list) list option"
  limit :: "number option"

definition normaliseSubjectQuery ::
  "string \<Rightarrow> (string \<times> string list) list option \<Rightarrow> string \<times> string list" where
  "normaliseSubjectQuery q als =
     (let normalisedQuery = toLowerCase (trim q);
          aliasTargets =
            (case als of
               None \<Rightarrow> []
             | Some entries \<Rightarrow>
                 foldl (\<lambda>targets (alias, ts).
                    if normalisedQuery = alias \<or> startsWith normalisedQuery (alias @ '' '')
                    then targets @ ts else targets) [] entries)
      in (normalisedQuery, aliasTargets))"

definition subjectPriority :: "string \<Rightarrow> string list \<Rightarrow> subject \<Rightarrow> int" where
  "subjectPriority normalisedQuery aliasTargets s =
     (let nameLower = toLowerCase (subject.name s);
          codeLower = toLowerCase (subject.code s);
          p1 = foldl (\<lambda>priority target.
                 if nameLower = toLowerCase target then priority + 100 else priority)
                 0 aliasTargets;
          p2 = foldl (\<lambda>priority target.
                 if startsWith nameLower (toLowerCase target) then priority + 50 else priority)
                 p1 aliasTargets;
          p3 = (if nameLower = normalisedQuery then p2 + 80 else p2);
          p4 = (if startsWith nameLower normalisedQuery then p3 + 40 else p3);
          p5 = (if codeLower = normalisedQuery then p4 + 70 else p4);
          p6 = (if startsWith codeLower normalisedQuery then p5 + 30 else p5)
      in p6)"

definition subjectFuzzyOptions :: searchOptions where
  "subjectFuzzyOptions =
     \<lparr>keys = [(''name'', Some (Fin 2)), (''code'', Some (Fin 1))],
      threshold = Some (Fin 0.3), minMatchCharLength = Some (Fin 2),
      shouldSort = None, includeScore = None, ignoreLocation = None, distance = None\<rparr>"

definition scoreOr1 :: "number option \<Rightarrow> number" where
  "scoreOr1 sc = (case sc of None \<Rightarrow> Fin 1 | Some n \<Rightarrow> num_or n (Fin 1))"

definition enrichSubject :: "subject \<Rightarrow> subject" where
  "enrichSubject s = s\<lparr>subject.searchText := Some (subject.name s @ '' '' @ subject.code s)\<rparr>"

definition limitOf :: "subjectSearchOptions \<Rightarrow> number" where
  "limitOf options = (case subjectSearchOptions.limit options of Some l \<Rightarrow> l | None \<Rightarrow> Fin 50)"

text \<open>
  The block of \<^verbatim>\<open>searchSubjects\<close> that searches the low-priority subjects: the index is
  asked for only when there is such a subject, and the results are sorted once more by
  \<^verbatim>\<open>(a.score || 1) - (b.score || 1)\<close>.
\<close>

definition fuzzySubjects ::
  "('k, subject) externals \<Rightarrow> int \<times> int \<Rightarrow> (subject \<times> int) list \<Rightarrow> string
     \<Rightarrow> ('k, subject) searchCache \<Rightarrow> subject list \<times> ('k, subject) searchCache" where
  "fuzzySubjects ext clock lowPriority normalisedQuery cache =
     (if length lowPriority > 0 then
        let (f, c) = createFuzzySearch ext clock (map fst lowPriority) subjectFuzzyOptions cache
        in (map fst
              (sortBy (\<lambda>a b. num_sub (scoreOr1 (snd a)) (scoreOr1 (snd b)))
                 (map (\<lambda>r. (item r, score r)) (fuse_search ext f normalisedQuery))), c)
      else ([], cache))"

definition searchSubjects ::
  "('k, subject) externals \<Rightarrow> int \<times> int \<Rightarrow> subject list \<Rightarrow> subjectSearchOptions
     \<Rightarrow> ('k, subject) searchCache \<Rightarrow> subject list \<times> ('k, subject) searchCache" where
  "searchSubjects ext clock subjects options cache =
     (if query options = [] \<or> length (trim (query options)) = 0
      then (slice0 subjects (limitOf options), cache)
      else
        let (normalisedQuery, aliasTargets) =
              normaliseSubjectQuery (query options) (aliases options);
            enriched = map enrichSubject subjects;
            scored = map (\<lambda>s. (s, subjectPriority normalisedQuery aliasTargets s)) enriched;
            highPriority = filter (\<lambda>s. snd s > 0) scored;
            lowPriority = filter (\<lambda>s. snd s = 0) scored;
            highSorted = sortBy (\<lambda>a b. Fin (of_int (snd b - snd a))) highPriority;
            (fuzzyResults, cache') = fuzzySubjects ext clock lowPriority normalisedQuery cache;
            results = map fst highSorted @ fuzzyResults
        in (slice0 results (limitOf options), cache'))"

section \<open>Student matcher\<close>

record subjectScore =
  subject :: string
  score :: number

record student =
  name :: string
  school :: string
  subjects :: "subjectScore list"
  year :: "number option"

definition studentMatchesQuery :: "student \<Rightarrow> string \<Rightarrow> bool" where
  "studentMatchesQuery st q =
     (let nameLower = toLowerCase (student.name st);
          schoolLower = toLowerCase (school st);
          queryLower = toLowerCase q
      in if includesStr nameLower queryLower \<or> includesStr schoolLower queryLower then True
         else if list_ex (\<lambda>s. includesStr (toLowerCase (subject s)) queryLower) (subjects st)
         then True
         else
           let queryWords = filter (\<lambda>w. length w > 0) (splitWhitespace queryLower) in
           if length queryWords > 1 then
             let nameWords = filter (\<lambda>w. length w > 0) (splitWhitespaceComma nameLower);
                 schoolWords = filter (\<lambda>w. length w > 0) (splitWhitespaceComma schoolLower);
                 allWordsMatch =
                   list_all (\<lambda>qw.
                      list_ex (\<lambda>nw. includesStr nw qw) nameWords \<or>
                      list_ex (\<lambda>sw. includesStr sw qw) schoolWords \<or>
                      list_ex (\<lambda>s. includesStr (toLowerCase (subject s)) qw) (subjects st))
                     queryWords
             in if allWordsMatch then True else False
           else False)"

text \<open>
  \<^verbatim>\<open>sortStudents\<close>. The comparator tests \<^verbatim>\<open>b.year !== a.year\<close> on the years as they
  are (a missing year differs from every number, and \<open>NaN\<close> from itself) and then
  subtracts the years with \<^verbatim>\<open>|| 0\<close> applied. \<open>localeCompare\<close> belongs to the language and
  the locale and is the parameter \<open>lc\<close>.
\<close>

definition strictNotEqual :: "number option \<Rightarrow> number option \<Rightarrow> bool" where
  "strictNotEqual a b =
     (case a of
        None \<Rightarrow> b \<noteq> None
      | Some x \<Rightarrow> (case b of None \<Rightarrow> True | Some y \<Rightarrow> isNaN x \<or> isNaN y \<or> x \<noteq> y))"

definition yearOr0 :: "number option \<Rightarrow> number" where
  "yearOr0 y = (case y of None \<Rightarrow> Fin 0 | Some n \<Rightarrow> num_or n (Fin 0))"

definition studentComparator ::
  "(string \<Rightarrow> string \<Rightarrow> number) \<Rightarrow> student \<Rightarrow> student \<Rightarrow> number" where
  "studentComparator lc a b =
     (if strictNotEqual (year b) (year a) then num_sub (yearOr0 (year b)) (yearOr0 (year a))
      else lc (student.name a) (student.name b))"

definition sortStudents :: "(string \<Rightarrow> string \<Rightarrow> number) \<Rightarrow> student list \<Rightarrow> student list" where
  "sortStudents lc students = sortBy (studentComparator lc) students"

section \<open>The rules in the words of the specification\<close>

text \<open>
  The priority of a subject for a query and an alias table, and the sum of bonuses that
  the specification gives for it: 100 for every alias target that the name equals, 50 for
  every alias target that the name starts with, and 80, 40, 70 and 30 for a name or code
  that equals or starts with the query. The alias targets of the specification are the
  targets of every alias that the query equals or starts with (followed by a space).
\<close>

definition priorityFor :: "string \<Rightarrow> (string \<times> string list) list option \<Rightarrow> subject \<Rightarrow> int" where
  "priorityFor q als s =
     subjectPriority (fst (normaliseSubjectQuery q als)) (snd (normaliseSubjectQuery q als)) s"

definition matchingTargets :: "string \<Rightarrow> (string \<times> string list) list \<Rightarrow> string list" where
  "matchingTargets nq entries =
     concat (map snd (filter (\<lambda>e. nq = fst e \<or> startsWith nq (fst e @ '' '')) entries))"

definition bonusSum :: "string \<Rightarrow> string list \<Rightarrow> subject \<Rightarrow> int" where
  "bonusSum nq targets s =
     100 * int (length (filter (\<lambda>t. toLowerCase (subject.name s) = toLowerCase t) targets))
     + 50 * int (length (filter (\<lambda>t. startsWith (toLowerCase (subject.name s)) (toLowerCase t)) targets))
     + (if toLowerCase (subject.name s) = nq then 80 else 0)
     + (if startsWith (toLowerCase (subject.name s)) nq then 40 else 0)
     + (if toLowerCase (subject.code s) = nq then 70 else 0)
     + (if startsWith (toLowerCase (subject.code s)) nq then 30 else 0)"

text \<open>
  The order of the specification on students: descending by year, a missing year counting
  as 0, and for equal years by name, in the order \<open>le\<close> that \<open>localeCompare\<close> decides.
\<close>

definition yearThenName :: "(string \<Rightarrow> string \<Rightarrow> bool) \<Rightarrow> student \<Rightarrow> student \<Rightarrow> bool" where
  "yearThenName le a b \<longleftrightarrow>
     num_lt (yearOr0 (year b)) (yearOr0 (year a))
     \<or> (yearOr0 (year a) = yearOr0 (year b) \<and> le (student.name a) (student.name b))"

section \<open>Concrete inputs\<close>

text \<open>
  Inputs at which the functions are evaluated below. \<open>containsSearch\<close> stands in for the
  search of the library there: it returns the documents one of whose listed fields contains
  the query, in index order, all with the same small score. At the inputs below Fuse.js
  returns the same documents: a field that contains the query matches it, and fields that
  share no stretch of letters with the query are beyond the threshold. It returns them in
  the same order too: with \<^verbatim>\<open>ignoreLocation\<close> set, as it is in the default options, the
  score of a match without error does not depend on where in the field the query stands,
  so that one-word names that contain the query have equal scores, and documents of equal
  score are returned in index order. The serialisation of
  \<open>demoExt\<close> and \<open>demoCourseExt\<close> is the pair of the length and the options itself.
  \<open>subjectField\<close> is the property access on a subject.
\<close>

definition containsSearch :: "('a \<Rightarrow> string) list \<Rightarrow> 'a fuse \<Rightarrow> string \<Rightarrow> 'a fuseResult list" where
  "containsSearch flds f q =
     map (\<lambda>p. \<lparr>item = snd p, refIndex = fst p, score = Some (Fin 0.001)\<rparr>)
       (filter (\<lambda>p. list_ex (\<lambda>fld. includesStr (toLowerCase (fld (snd p))) (toLowerCase q)) flds)
          (enumerate 0 (docs f)))"

definition demoExt :: "(nat \<times> searchOptions, subject) externals" where
  "demoExt =
     \<lparr>fuse_search = containsSearch [subject.name, subject.code], json_stringify = (\<lambda>k. k)\<rparr>"

definition demoCourseExt :: "(nat \<times> searchOptions, enrichedCourse) externals" where
  "demoCourseExt =
     \<lparr>fuse_search = containsSearch [enrichedCourse.searchText, course.name, course.institution,
        course.code],
      json_stringify = (\<lambda>k. k)\<rparr>"

definition subjectField :: "subject \<Rightarrow> string \<Rightarrow> jsval" where
  "subjectField s key =
     (if key = ''name'' then JString (subject.name s)
      else if key = ''code'' then JString (subject.code s)
      else JOther)"

definition biology :: subject where
  "biology = \<lparr>subject.code = ''BI'', subject.name = ''Biology'', mean = None, stdev = None,
     scaling = [], subject.searchText = None\<rparr>"

definition chemistry :: subject where
  "chemistry = \<lparr>subject.code = ''CH'', subject.name = ''Chemistry'', mean = None, stdev = None,
     scaling = [], subject.searchText = None\<rparr>"

definition mathMethods :: subject where
  "mathMethods = \<lparr>subject.code = ''MM'', subject.name = ''Mathematical Methods'', mean = None,
     stdev = None, scaling = [], subject.searchText = None\<rparr>"

definition generalMaths :: subject where
  "generalMaths = \<lparr>subject.code = ''GM'', subject.name = ''General Mathematics'', mean = None,
     stdev = None, scaling = [], subject.searchText = None\<rparr>"

definition biochemistry :: subject where
  "biochemistry = \<lparr>subject.code = ''BC'', subject.name = ''Biochemistry'', mean = None,
     stdev = None, scaling = [], subject.searchText = None\<rparr>"

definition physics :: subject where
  "physics = \<lparr>subject.code = ''PH'', subject.name = ''Physics'', mean = None, stdev = None,
     scaling = [], subject.searchText = None\<rparr>"

definition physQuery :: subjectSearchOptions where
  "physQuery = \<lparr>query = ''phys'', aliases = None, subjectSearchOptions.limit = None\<rparr>"

definition chemQuery :: subjectSearchOptions where
  "chemQuery = \<lparr>query = ''chem'', aliases = None, subjectSearchOptions.limit = None\<rparr>"

definition physCache :: "(nat \<times> searchOptions, subject) searchCache" where
  "physCache =
     snd (searchSubjects demoExt (0, 0) [biochemistry, chemistry, physics] physQuery
            clearSearchCache)"

definition emistryQuery :: subjectSearchOptions where
  "emistryQuery = \<lparr>query = ''emistry'', aliases = None, subjectSearchOptions.limit = None\<rparr>"

definition staleCache :: "(nat \<times> searchOptions, subject) searchCache" where
  "staleCache = snd (searchSubjects demoExt (0, 0) [biology] emistryQuery clearSearchCache)"

definition demoCourses :: "course list" where
  "demoCourses =
     [\<lparr>course.code = ''1001'', course.name = ''Bachelor of Arts'', course.rank = ''80'',
       course.institution = ''Monash University'', course.campus = ''Clayton''\<rparr>,
      \<lparr>course.code = ''1002'', course.name = ''Bachelor of Medicine'', course.rank = ''95'',
       course.institution = ''Monash University'', course.campus = ''Clayton''\<rparr>,
      \<lparr>course.code = ''2001'', course.name = ''Medicine'', course.rank = ''N/P'',
       course.institution = ''Monash'', course.campus = ''Parkville''\<rparr>]"

definition zed :: student where
  "zed = \<lparr>student.name = ''Zed'', school = ''X High'', subjects = [], year = None\<rparr>"

definition amy :: student where
  "amy = \<lparr>student.name = ''Amy'', school = ''X High'', subjects = [], year = Some (Fin 0)\<rparr>"

section \<open>Properties of the course classification\<close>

lemma parseFloat_examples:
  "parseFloat ''95'' = Fin 95"
  "parseFloat ''85.50'' = Fin 85.5"
  "parseFloat ''N/A'' = NaN"
  "parseFloat '''' = NaN"
  by (simp_all add: parseFloat_def readSign_def startsWith_def isDigit_def isWhiteSpace_def
      digitsVal_def readExponent_def scale10_def)

lemma classify_codes:
  "r = ''N/P'' \<or> r = ''L/N'' \<or> r = ''RC'' \<Longrightarrow> classify t r = (Unknown, Fin 0)"
  by (simp add: classify_def)

lemma classify_unparsable:
  assumes "r \<noteq> ''N/P''" "r \<noteq> ''L/N''" "r \<noteq> ''RC''" and "parseFloat r = NaN"
  shows "classify t r = (Unknown, NaN)"
  using assms by (simp add: classify_def)

text \<open>
  Claim C1. \<open>enrichCourses\<close> gives the category \<open>unknown\<close> with \<open>rankNum = 0\<close> to the ranks
  \<open>N/P\<close>, \<open>L/N\<close> and \<open>RC\<close> and to a rank that does not parse, and classifies a parsed
  rank against \<open>atar - 5\<close> and \<open>atar + 5\<close>. On the code the rank \<open>N/A\<close>, which does not
  parse, gets the category \<open>unknown\<close> but its \<open>rankNum\<close> is \<open>NaN\<close>, not \<open>0\<close>: the result of
  \<open>parseFloat\<close> has overwritten the initial \<open>0\<close> before the \<open>isNaN\<close> test.
\<close>

theorem enrichCourses_unparsable_rank:
  "enrichCourses
     [\<lparr>course.code = ''3400'', course.name = ''Arts'', course.rank = ''N/A'',
       course.institution = ''Monash University'', course.campus = ''Clayton''\<rparr>] (Fin 90) =
     [\<lparr>course.code = ''3400'', course.name = ''Arts'', course.rank = ''N/A'',
       course.institution = ''Monash University'', course.campus = ''Clayton'',
       enrichedCourse.category = Unknown, enrichedCourse.rankNum = NaN,
       enrichedCourse.searchText = ''Monash University Arts 3400''\<rparr>]
   \<and> NaN \<noteq> Fin 0"
  by (simp add: enrichCourses_def enrichCourse_def classify_def parseFloat_examples)

section \<open>Properties of sorting\<close>

text \<open>
  When a positive comparator result means that the key of the second argument is smaller,
  \<open>sortBy\<close> is the stable sort by that key.
\<close>

lemma insertBy_key:
  fixes f :: "'a \<Rightarrow> 'b::linorder"
  assumes "\<And>a b. num_gt (cmp a b) (Fin 0) \<longleftrightarrow> f b < f a"
  shows "insertBy cmp x ys = insort_key f x ys"
  by (induction ys) (auto simp: assms)

lemma sortBy_key:
  fixes f :: "'a \<Rightarrow> 'b::linorder"
  assumes "\<And>a b. num_gt (cmp a b) (Fin 0) \<longleftrightarrow> f b < f a"
  shows "sortBy cmp xs = sort_key f xs"
  by (induction xs) (simp_all add: sortBy_def insertBy_key [of cmp f, OF assms])

lemma insort_key_map:
  "insort_key f (h x) (map h ys) = map h (insort_key (\<lambda>y. f (h y)) x ys)"
  by (induction ys) simp_all

lemma sort_key_map:
  "sort_key f (map h xs) = map h (sort_key (\<lambda>y. f (h y)) xs)"
  by (induction xs) (simp_all add: insort_key_map)

lemma sortBy_scored:
  "map fst (sortBy (\<lambda>a b. Fin (of_int (snd b - snd a))) (map (\<lambda>c. (c, g c)) xs))
     = sort_key (\<lambda>c. - g c) xs"
proof -
  have "sortBy (\<lambda>a b. Fin (of_int (snd b - snd a))) ys = sort_key (\<lambda>p. - snd p) ys"
    for ys :: "('a \<times> int) list"
    by (rule sortBy_key) (simp add: num_gt_def)
  then show ?thesis
    by (simp add: sort_key_map o_def)
qed

lemma mset_insertBy: "mset (insertBy cmp x ys) = add_mset x (mset ys)"
  by (induction ys) simp_all

lemma mset_sortBy: "mset (sortBy cmp xs) = mset xs"
  by (induction xs) (simp_all add: sortBy_def mset_insertBy)

lemma set_sortBy: "set (sortBy cmp xs) = set xs"
  by (metis mset_sortBy set_mset_mset)

text \<open>
  For a comparator that decides a total and transitive relation on the elements of the
  list, the result of \<open>sortBy\<close> is sorted by that relation.
\<close>

lemma set_insertBy: "set (insertBy cmp x ys) = insert x (set ys)"
  by (induction ys) auto

lemma sorted_wrt_insertBy:
  assumes tot: "\<And>a b. a \<in> A \<Longrightarrow> b \<in> A \<Longrightarrow> R a b \<or> R b a"
    and trans: "\<And>a b c. a \<in> A \<Longrightarrow> b \<in> A \<Longrightarrow> c \<in> A \<Longrightarrow> R a b \<Longrightarrow> R b c \<Longrightarrow> R a c"
    and cmp: "\<And>a b. a \<in> A \<Longrightarrow> b \<in> A \<Longrightarrow> num_gt (cmp a b) (Fin 0) \<longleftrightarrow> \<not> R a b"
    and "x \<in> A" "set ys \<subseteq> A" "sorted_wrt R ys"
  shows "sorted_wrt R (insertBy cmp x ys)"
  using assms(4-)
proof (induction ys)
  case Nil
  then show ?case by simp
next
  case (Cons y ys)
  show ?case
  proof (cases "num_gt (cmp x y) (Fin 0)")
    case True
    then have "R y x"
      using cmp [of x y] tot [of x y] Cons.prems by auto
    then show ?thesis
      using True Cons by (auto simp: set_insertBy)
  next
    case False
    then have xy: "R x y"
      using cmp [of x y] Cons.prems by auto
    have "R x z" if "z \<in> set ys" for z
      using xy that Cons.prems trans [of x y z] by auto
    then show ?thesis
      using False xy Cons.prems by auto
  qed
qed

lemma sorted_wrt_sortBy:
  assumes tot: "\<And>a b. a \<in> A \<Longrightarrow> b \<in> A \<Longrightarrow> R a b \<or> R b a"
    and trans: "\<And>a b c. a \<in> A \<Longrightarrow> b \<in> A \<Longrightarrow> c \<in> A \<Longrightarrow> R a b \<Longrightarrow> R b c \<Longrightarrow> R a c"
    and cmp: "\<And>a b. a \<in> A \<Longrightarrow> b \<in> A \<Longrightarrow> num_gt (cmp a b) (Fin 0) \<longleftrightarrow> \<not> R a b"
    and "set xs \<subseteq> A"
  shows "sorted_wrt R (sortBy cmp xs)"
  using assms(4)
proof (induction xs)
  case Nil
  show ?case by (simp add: sortBy_def)
next
  case (Cons x xs)
  have "set (sortBy cmp xs) \<subseteq> A"
    using Cons.prems by (simp add: set_sortBy)
  then show ?case
    using Cons sorted_wrt_insertBy [of A R cmp x "sortBy cmp xs", OF tot trans cmp]
    by (simp add: sortBy_def)
qed

lemma sorted_wrt_slice0: "sorted_wrt P xs \<Longrightarrow> sorted_wrt P (slice0 xs n)"
  by (cases n) (simp_all add: Let_def sorted_wrt_take)

lemma sorted_wrt_tiers:
  assumes "sorted_wrt (\<lambda>a b. f b \<le> f a) H" and "\<forall>s \<in> set F. f s = (0::int)"
    and "\<forall>s \<in> set H. 0 < f s"
  shows "sorted_wrt (\<lambda>a b. f b \<le> f a) (H @ F)"
proof -
  have "sorted_wrt (\<lambda>a b. f b \<le> f a) F"
    using assms(2) by (induction F) simp_all
  with assms show ?thesis
    by (auto simp: sorted_wrt_append intro: less_imp_le)
qed

lemma sorted_wrt_precedes:
  assumes "sorted_wrt (\<lambda>a b. f b \<le> f a) r" and "i < length r" and "j < length r"
    and "0 < f (r ! i)" and "f (r ! j) = (0::int)"
  shows "i < j"
proof (rule ccontr)
  assume "\<not> i < j"
  then consider "j = i" | "j < i" by linarith
  then show False
  proof cases
    case 1
    with assms show ?thesis by simp
  next
    case 2
    then have "f (r ! i) \<le> f (r ! j)"
      using assms(1,2) by (simp add: sorted_wrt_iff_nth_less)
    with assms show ?thesis by simp
  qed
qed

section \<open>Properties of the word-based course search\<close>

lemma courseScore_step:
  "foldl (\<lambda>score word.
        if toLowerCase (course.institution c) = word then score + 100
        else if toLowerCase (course.name c) = word then score + 90
        else if startsWith (toLowerCase (course.institution c)) word then score + 50
        else if startsWith (toLowerCase (course.name c)) word then score + 40
        else if includesStr (toLowerCase (course.institution c)) ('' '' @ word) then score + 20
        else if includesStr (toLowerCase (course.name c)) ('' '' @ word) then score + 15
        else score + 1) a ws = a + sum_list (map (firstTier c) ws)"
  by (induction ws arbitrary: a) (simp_all add: firstTier_def tiers_def)

lemma courseScore_firstTier: "courseScore ws c = sum_list (map (firstTier c) ws)"
  by (simp add: courseScore_def courseScore_step)

lemma wordBasedSearch_sort_key:
  assumes "qualifyingWords (toLowerCase t) \<noteq> []"
  shows "wordBasedSearch courses t =
    sort_key (\<lambda>c. - courseScore (qualifyingWords (toLowerCase t)) c)
      (filter (courseMatches (qualifyingWords (toLowerCase t))) courses)"
  using assms by (simp add: wordBasedSearch_def Let_def sortBy_scored del: of_int_diff)

text \<open>
  Claim C2. For a search term with at least one qualifying word, \<open>wordBasedSearch\<close> keeps
  exactly the courses whose lowercased \<open>searchText\<close> contains every qualifying word (the
  result has the same elements, with multiplicity, as the filtered list); the result is
  sorted descending by score; courses of equal score keep their input order; and the
  score of a course is the sum over the words of the points of the first tier that
  applies (100, 90, 50, 40, 20, 15, else 1).
\<close>

theorem wordBasedSearch_ranking:
  assumes "qualifyingWords (toLowerCase t) \<noteq> []"
  shows "mset (wordBasedSearch courses t) =
           mset (filter (\<lambda>c. list_all (includesStr (toLowerCase (enrichedCourse.searchText c)))
                               (qualifyingWords (toLowerCase t))) courses)
       \<and> sorted_wrt (\<lambda>a b. courseScore (qualifyingWords (toLowerCase t)) b
                            \<le> courseScore (qualifyingWords (toLowerCase t)) a)
           (wordBasedSearch courses t)
       \<and> (\<forall>k. filter (\<lambda>c. courseScore (qualifyingWords (toLowerCase t)) c = k)
                 (wordBasedSearch courses t) =
               filter (\<lambda>c. courseScore (qualifyingWords (toLowerCase t)) c = k)
                 (filter (\<lambda>c. list_all (includesStr (toLowerCase (enrichedCourse.searchText c)))
                               (qualifyingWords (toLowerCase t))) courses))
       \<and> (\<forall>c. courseScore (qualifyingWords (toLowerCase t)) c =
               sum_list (map (firstTier c) (qualifyingWords (toLowerCase t))))"
proof -
  let ?ws = "qualifyingWords (toLowerCase t)"
  let ?f = "\<lambda>c. - courseScore ?ws c"
  have m: "courseMatches ?ws = (\<lambda>c. list_all (includesStr (toLowerCase (enrichedCourse.searchText c))) ?ws)"
    by (simp add: courseMatches_def fun_eq_iff)
  have r: "wordBasedSearch courses t = sort_key ?f (filter (courseMatches ?ws) courses)"
    using assms by (rule wordBasedSearch_sort_key)
  have s: "sorted (map ?f (wordBasedSearch courses t))"
    unfolding r by (rule sorted_sort_key)
  have s': "sorted_wrt (\<lambda>a b. courseScore ?ws b \<le> courseScore ?ws a) (wordBasedSearch courses t)"
    using s by (simp add: sorted_map)
  have st: "filter (\<lambda>c. courseScore ?ws c = k) (wordBasedSearch courses t) =
      filter (\<lambda>c. courseScore ?ws c = k) (filter (courseMatches ?ws) courses)" for k
    unfolding r using sort_key_stable [of ?f "- k" "filter (courseMatches ?ws) courses"] by simp
  show ?thesis
    using s' st by (simp add: r m [symmetric] courseScore_firstTier)
qed

theorem wordBasedSearch_ranking_witness:
  "qualifyingWords (toLowerCase ''monash medicine'') \<noteq> []
   \<and> map course.code (wordBasedSearch (enrichCourses demoCourses (Fin 90)) ''monash medicine'')
       = [''2001'', ''1002'']
   \<and> sorted_wrt (\<lambda>a b. courseScore (qualifyingWords (toLowerCase ''monash medicine'')) b
                        \<le> courseScore (qualifyingWords (toLowerCase ''monash medicine'')) a)
        (wordBasedSearch (enrichCourses demoCourses (Fin 90)) ''monash medicine'')"
proof -
  have h: "qualifyingWords (toLowerCase ''monash medicine'') \<noteq> []"
    by code_simp
  have e: "map course.code (wordBasedSearch (enrichCourses demoCourses (Fin 90)) ''monash medicine'')
       = [''2001'', ''1002'']"
    by code_simp
  from h e wordBasedSearch_ranking [OF h, of "enrichCourses demoCourses (Fin 90)"]
  show ?thesis by blast
qed

text \<open>
  The courses found for \<open>monash medicine\<close> at an ATAR of 90, with their categories: the
  rank 95 is not above \<open>90 + 5\<close>, so the course of rank 95 is a target.
\<close>

lemma wordBasedSearch_monash_medicine:
  "map (\<lambda>c. (course.code c, enrichedCourse.category c))
     (wordBasedSearch (enrichCourses demoCourses (Fin 90)) ''monash medicine'')
   = [(''2001'', Unknown), (''1002'', Target)]"
  by code_simp

section \<open>Properties of the fuzzy search\<close>

lemma trim_Nil [simp]: "trim [] = []"
  by (simp add: trim_def)

lemma toLowerCase_Nil [simp]: "toLowerCase [] = []"
  by (simp add: toLowerCase_def)

lemma length_toLowerCase [simp]: "length (toLowerCase s) = length s"
  by (simp add: toLowerCase_def)

lemma toLowerCase_eq_Nil [simp]: "toLowerCase s = [] \<longleftrightarrow> s = []"
  by (simp add: toLowerCase_def)

lemma num_or_of_lt:
  assumes "num_lt (Fin (real n)) m" and "0 < n"
  shows "num_or m (Fin 1) = m"
  using assms by (cases m) (auto simp: num_or_def truthy_def)

text \<open>
  Claim C5. \<open>fuzzySearch\<close> with an empty or whitespace-only query returns the collection
  it was given, unchanged, and leaves the cache alone, so a non-empty collection never
  comes back empty. With a query that is not blank but shorter, after trimming, than
  \<open>minMatchCharLength\<close> it returns the empty list, which is not the collection when that is
  non-empty.
\<close>

theorem fuzzySearch_short_circuit:
  "(trim q = [] \<longrightarrow>
      fuzzySearch ext clock xs q options cache = (xs, cache)
      \<and> (xs \<noteq> [] \<longrightarrow> fst (fuzzySearch ext clock xs q options cache) \<noteq> []))
   \<and> (trim q \<noteq> [] \<and> minMatchCharLength options = Some m
        \<and> num_lt (Fin (real (length (trim q)))) m \<longrightarrow>
      fuzzySearch ext clock xs q options cache = ([], cache)
      \<and> (xs \<noteq> [] \<longrightarrow> fst (fuzzySearch ext clock xs q options cache) \<noteq> xs))"
proof (intro conjI impI)
  assume "trim q = []"
  then show e: "fuzzySearch ext clock xs q options cache = (xs, cache)"
    by (simp add: fuzzySearch_def)
  assume "xs \<noteq> []"
  with e show "fst (fuzzySearch ext clock xs q options cache) \<noteq> []"
    by simp
next
  assume a: "trim q \<noteq> [] \<and> minMatchCharLength options = Some m
    \<and> num_lt (Fin (real (length (trim q)))) m"
  then have "q \<noteq> []" by auto
  moreover have "minLength options = m"
    using a num_or_of_lt [of "length (trim q)" m] by (simp add: minLength_def)
  ultimately show s: "fuzzySearch ext clock xs q options cache = ([], cache)"
    using a by (simp add: fuzzySearch_def)
  assume "xs \<noteq> []"
  with s show "fst (fuzzySearch ext clock xs q options cache) \<noteq> xs"
    by simp
qed

theorem fuzzySearch_short_circuit_witness:
  "trim ''   '' = []
   \<and> fuzzySearch demoExt (0, 0) [biology, chemistry] ''   '' subjectFuzzyOptions clearSearchCache
       = ([biology, chemistry], clearSearchCache)
   \<and> trim '' c '' \<noteq> [] \<and> minMatchCharLength subjectFuzzyOptions = Some (Fin 2)
   \<and> num_lt (Fin (real (length (trim '' c '')))) (Fin 2)
   \<and> fuzzySearch demoExt (0, 0) [biology, chemistry] '' c '' subjectFuzzyOptions clearSearchCache
       = ([], clearSearchCache)"
proof -
  have a: "trim ''   '' = []"
    by (simp add: trim_def isWhiteSpace_def)
  have b: "trim '' c '' \<noteq> [] \<and> minMatchCharLength subjectFuzzyOptions = Some (Fin 2)
      \<and> num_lt (Fin (real (length (trim '' c '')))) (Fin 2)"
    by (simp add: trim_def isWhiteSpace_def subjectFuzzyOptions_def)
  from a b
    fuzzySearch_short_circuit [of "''   ''" demoExt "(0, 0)" "[biology, chemistry]"
      subjectFuzzyOptions clearSearchCache "Fin 2"]
    fuzzySearch_short_circuit [of "'' c ''" demoExt "(0, 0)" "[biology, chemistry]"
      subjectFuzzyOptions clearSearchCache "Fin 2"]
  show ?thesis by blast
qed

section \<open>Properties of the hybrid search\<close>

lemma exactKeyMatch_isExactMatch:
  assumes "q \<noteq> []"
  shows "exactKeyMatch field q it ks = isExactMatch field q ks it"
proof (induction ks)
  case Nil
  show ?case by (simp add: isExactMatch_def)
next
  case (Cons k ks)
  have "startsWith [] q = False" "toLowerCase [] \<noteq> q"
    using assms by (auto simp: startsWith_def)
  with Cons show ?case
    by (auto simp: isExactMatch_def split: jsval.splits)
qed

lemma partition_foldl:
  "foldl (\<lambda>(exactMatches, fuzzyMatches) it.
        if P it then (exactMatches @ [it], fuzzyMatches)
        else (exactMatches, fuzzyMatches @ [it])) (es, fs) xs
   = (es @ filter P xs, fs @ filter (\<lambda>x. \<not> P x) xs)"
  by (induction xs arbitrary: es fs) simp_all

lemma partitionExact_filter:
  "partitionExact field q ks xs =
     (filter (\<lambda>x. exactKeyMatch field q x ks) xs, filter (\<lambda>x. \<not> exactKeyMatch field q x ks) xs)"
  by (simp add: partitionExact_def partition_foldl)

text \<open>
  Claim C4. For a query that is not blank, \<open>hybridSearch\<close> splits the data into the items
  that are exact matches (some key of \<open>exactKeys\<close> has a string value that, lowercased,
  equals the trimmed lowercased query or starts with it) and the others, each in input
  order and each item once. When no item is an exact match the result is \<open>fuzzySearch\<close>
  of the whole data; otherwise it is the exact matches followed by the result of
  \<open>fuzzySearch\<close> on the others from which every item equal to an exact match is removed.
\<close>

theorem hybridSearch_partition:
  assumes "trim q \<noteq> []"
  shows
    "(let trimmedQuery = toLowerCase (trim q);
          exact = filter (isExactMatch field trimmedQuery exactKeys) xs;
          others = filter (\<lambda>x. \<not> isExactMatch field trimmedQuery exactKeys x) xs
      in hybridSearch ext field clock xs q options exactKeys cache =
           (if exact = [] then fuzzySearch ext clock xs q options cache
            else (exact @ filter (\<lambda>x. x \<notin> set exact)
                            (fst (fuzzySearch ext clock others q options cache)),
                  snd (fuzzySearch ext clock others q options cache))))"
proof -
  have q: "toLowerCase (trim q) \<noteq> []" "q \<noteq> []"
    using assms by auto
  show ?thesis
    using assms q
    by (simp add: hybridSearch_def partitionExact_filter exactKeyMatch_isExactMatch [OF q(1)]
        split_beta Let_def del: set_filter)
qed

theorem hybridSearch_partition_witness:
  "trim ''chem'' \<noteq> []
   \<and> fst (hybridSearch demoExt subjectField (0, 0) [biology, chemistry] ''chem''
            subjectFuzzyOptions [''name''] clearSearchCache) = [chemistry]"
proof -
  have h: "trim ''chem'' \<noteq> []"
    by (simp add: trim_def isWhiteSpace_def)
  have t: "toLowerCase (trim ''chem'') = ''chem''"
    by code_simp
  have e: "isExactMatch subjectField ''chem'' [''name''] chemistry"
    "\<not> isExactMatch subjectField ''chem'' [''name''] biology"
    by code_simp+
  have f: "fst (fuzzySearch demoExt (0, 0) [biology] ''chem'' subjectFuzzyOptions clearSearchCache)
    = []"
    by code_simp
  show ?thesis
    using h hybridSearch_partition [OF h, of subjectField "[''name'']" "[biology, chemistry]"
      demoExt "(0, 0)" subjectFuzzyOptions clearSearchCache]
    by (simp add: Let_def t e f)
qed

text \<open>A blank query returns the data as it is, whatever the keys.\<close>

lemma hybridSearch_blank:
  "trim q = [] \<Longrightarrow> hybridSearch ext field clock xs q options exactKeys cache = (xs, cache)"
  by (simp add: hybridSearch_def)

section \<open>Properties of the student matcher\<close>

lemma includesStr_Nil [simp]: "includesStr s []"
  by (cases s) (simp_all add: startsWith_def)

text \<open>
  Claim C10. \<open>studentMatchesQuery\<close> returns true for the empty query, whatever the
  student: the empty string is a substring of every name.
\<close>

theorem studentMatchesQuery_empty: "studentMatchesQuery st [] = True"
  by (simp add: studentMatchesQuery_def)

theorem studentMatchesQuery_empty_witness: "studentMatchesQuery zed [] = True"
  using studentMatchesQuery_empty [of zed] by simp

text \<open>
  Claim C8. \<open>sortStudents\<close> orders the students descending by year, a missing year
  counting as 0, and students of equal effective year ascending by name. On the code a
  student without a year and a student of year 0 have the same effective year, but the
  comparator takes the branch of different years (\<^verbatim>\<open>b.year !== a.year\<close>) and returns
  \<open>0 - 0\<close>: the two are left in input order whatever their names, here \<open>Zed\<close> before \<open>Amy\<close>,
  for every \<open>localeCompare\<close>.
\<close>

theorem sortStudents_missing_year_against_zero:
  "yearOr0 (year zed) = yearOr0 (year amy) \<and> sortStudents lc [zed, amy] = [zed, amy]"
  by (simp add: sortStudents_def sortBy_def studentComparator_def strictNotEqual_def yearOr0_def
      num_or_def truthy_def num_sub_def num_gt_def zed_def amy_def)

text \<open>
  When no student has the year 0, \<open>NaN\<close> or an infinity (a year may be missing), and
  \<open>localeCompare\<close> decides a total and transitive order \<open>le\<close> on the names, the result of
  \<open>sortStudents\<close> is in the order of the specification and has the same students.
\<close>

lemma sortStudents_sorted:
  assumes years: "\<And>s. s \<in> set xs \<Longrightarrow> year s = None \<or> (\<exists>y. year s = Some (Fin y) \<and> y \<noteq> 0)"
    and lc: "\<And>a b. num_gt (lc a b) (Fin 0) \<longleftrightarrow> \<not> le a b"
    and tot: "\<And>a b. le a b \<or> le b a"
    and trans: "\<And>a b c. le a b \<Longrightarrow> le b c \<Longrightarrow> le a c"
  shows "sorted_wrt (yearThenName le) (sortStudents lc xs)
       \<and> mset (sortStudents lc xs) = mset xs"
proof -
  define A :: "student set" where "A = {s. year s = None \<or> (\<exists>y. year s = Some (Fin y) \<and> y \<noteq> 0)}"
  have fin: "\<exists>e. yearOr0 (year s) = Fin e" if "s \<in> A" for s :: student
    using that by (auto simp: A_def yearOr0_def num_or_def truthy_def)
  have neq: "strictNotEqual (year b) (year a) \<longleftrightarrow> yearOr0 (year a) \<noteq> yearOr0 (year b)"
    if "a \<in> A" "b \<in> A" for a b :: student
    using that by (auto simp: A_def yearOr0_def num_or_def truthy_def strictNotEqual_def)
  have tot': "yearThenName le a b \<or> yearThenName le b a" if "a \<in> A" "b \<in> A" for a b :: student
    using fin [OF that(1)] fin [OF that(2)] tot [of "student.name a" "student.name b"]
    by (auto simp: yearThenName_def)
  have trans': "yearThenName le a c"
    if "a \<in> A" "b \<in> A" "c \<in> A" "yearThenName le a b" "yearThenName le b c" for a b c :: student
    using fin [OF that(1)] fin [OF that(2)] fin [OF that(3)] that(4,5)
      trans [of "student.name a" "student.name b" "student.name c"]
    by (auto simp: yearThenName_def)
  have cmp: "num_gt (studentComparator lc a b) (Fin 0) \<longleftrightarrow> \<not> yearThenName le a b"
    if "a \<in> A" "b \<in> A" for a b :: student
    using fin [OF that(1)] fin [OF that(2)] neq [OF that] lc [of "student.name a" "student.name b"]
    by (auto simp: studentComparator_def yearThenName_def num_sub_def num_gt_def)
  have "set xs \<subseteq> A"
    using years by (auto simp: A_def)
  then have "sorted_wrt (yearThenName le) (sortBy (studentComparator lc) xs)"
    using sorted_wrt_sortBy [of A "yearThenName le" "studentComparator lc" xs] tot' trans' cmp
    by blast
  then show ?thesis
    by (simp add: sortStudents_def mset_sortBy)
qed

section \<open>Properties of the match cache\<close>

lemma createFuzzySearch_hit:
  assumes "cache (getCacheKey ext xs options) = Some e" and "fst clock - timestamp e \<le> CACHE_TTL"
  shows "createFuzzySearch ext clock xs options cache = (fuse e, clearExpiredCache (fst clock) cache)"
  using assms by (simp add: createFuzzySearch_def clearExpiredCache_def)

lemma createFuzzySearch_miss:
  assumes "clearExpiredCache (fst clock) cache (getCacheKey ext xs options) = None"
  shows "createFuzzySearch ext clock xs options cache =
    (newFuse xs options,
     (clearExpiredCache (fst clock) cache)
       (getCacheKey ext xs options \<mapsto> \<lparr>fuse = newFuse xs options, timestamp = snd clock\<rparr>))"
  using assms by (simp add: createFuzzySearch_def Let_def)

lemma clearExpiredCache_Some:
  "clearExpiredCache now cache k = Some e \<longleftrightarrow> cache k = Some e \<and> now - timestamp e \<le> CACHE_TTL"
  by (auto simp: clearExpiredCache_def split: option.splits)

lemma clearExpiredCache_None:
  "clearExpiredCache now cache k = None \<longleftrightarrow>
     (\<forall>e. cache k = Some e \<longrightarrow> CACHE_TTL < now - timestamp e)"
  by (auto simp: clearExpiredCache_def split: option.splits)

text \<open>
  Claim C7, as amended. In any state of the cache, and so after any sequence of accesses,
  \<open>createFuzzySearch\<close> first sweeps every entry with \<open>now - timestamp > CACHE_TTL\<close> and
  only then looks the key up: it returns the index of an entry of the cache under the key
  whose age \<open>now - timestamp\<close> is at most five minutes, or else a new index built from its
  arguments. An entry of age exactly five minutes is kept and reused. Every entry left in
  the cache is at most five minutes old, or is the one just stored.
\<close>

theorem createFuzzySearch_expiry:
  "((\<exists>e. cache (getCacheKey ext xs options) = Some e
        \<and> fst clock - timestamp e \<le> CACHE_TTL
        \<and> fst (createFuzzySearch ext clock xs options cache) = fuse e)
    \<or> ((\<forall>e. cache (getCacheKey ext xs options) = Some e \<longrightarrow> CACHE_TTL < fst clock - timestamp e)
        \<and> fst (createFuzzySearch ext clock xs options cache) = newFuse xs options))
   \<and> (\<forall>k e. clearExpiredCache (fst clock) cache k = Some e \<longrightarrow>
          cache k = Some e \<and> fst clock - timestamp e \<le> CACHE_TTL)
   \<and> (\<forall>k e. cache k = Some e \<and> CACHE_TTL < fst clock - timestamp e \<longrightarrow>
          clearExpiredCache (fst clock) cache k = None)
   \<and> (\<forall>k e. snd (createFuzzySearch ext clock xs options cache) k = Some e \<longrightarrow>
          fst clock - timestamp e \<le> CACHE_TTL
          \<or> (k = getCacheKey ext xs options
              \<and> e = \<lparr>fuse = newFuse xs options, timestamp = snd clock\<rparr>))"
proof (intro conjI)
  show "(\<exists>e. cache (getCacheKey ext xs options) = Some e
        \<and> fst clock - timestamp e \<le> CACHE_TTL
        \<and> fst (createFuzzySearch ext clock xs options cache) = fuse e)
    \<or> ((\<forall>e. cache (getCacheKey ext xs options) = Some e \<longrightarrow> CACHE_TTL < fst clock - timestamp e)
        \<and> fst (createFuzzySearch ext clock xs options cache) = newFuse xs options)"
  proof (cases "clearExpiredCache (fst clock) cache (getCacheKey ext xs options)")
    case None
    then show ?thesis
      by (simp add: createFuzzySearch_miss) (simp add: clearExpiredCache_None)
  next
    case (Some e)
    then show ?thesis
      by (simp add: clearExpiredCache_Some createFuzzySearch_hit)
  qed
  show "\<forall>k e. clearExpiredCache (fst clock) cache k = Some e \<longrightarrow>
          cache k = Some e \<and> fst clock - timestamp e \<le> CACHE_TTL"
    by (simp add: clearExpiredCache_Some)
  show "\<forall>k e. cache k = Some e \<and> CACHE_TTL < fst clock - timestamp e \<longrightarrow>
          clearExpiredCache (fst clock) cache k = None"
    by (simp add: clearExpiredCache_def)
  show "\<forall>k e. snd (createFuzzySearch ext clock xs options cache) k = Some e \<longrightarrow>
          fst clock - timestamp e \<le> CACHE_TTL
          \<or> (k = getCacheKey ext xs options
              \<and> e = \<lparr>fuse = newFuse xs options, timestamp = snd clock\<rparr>)"
    by (auto simp: createFuzzySearch_def Let_def clearExpiredCache_Some split: option.splits if_splits)
qed

lemma getCacheKey_demoExt [simp]: "getCacheKey demoExt xs options = (length xs, options)"
  by (simp add: getCacheKey_def demoExt_def)

lemma clearSearchCache_apply [simp]: "clearSearchCache k = None"
  by (simp add: clearSearchCache_def)

lemma clearExpiredCache_empty [simp]: "clearExpiredCache now clearSearchCache = clearSearchCache"
  by (simp add: clearExpiredCache_def fun_eq_iff)

lemma createFuzzySearch_empty:
  "createFuzzySearch ext clock xs options clearSearchCache =
     (newFuse xs options,
      clearSearchCache(getCacheKey ext xs options \<mapsto>
        \<lparr>fuse = newFuse xs options, timestamp = snd clock\<rparr>))"
  by (simp add: createFuzzySearch_miss)

lemma demo_cache:
  "snd (createFuzzySearch demoExt (0, 0) [biology] subjectFuzzyOptions clearSearchCache)
     = clearSearchCache((Suc 0, subjectFuzzyOptions) \<mapsto>
         \<lparr>fuse = newFuse [biology] subjectFuzzyOptions, timestamp = 0\<rparr>)"
  by (simp add: createFuzzySearch_empty)

lemma demo_cache_kept:
  "snd (createFuzzySearch demoExt (300000, 300000) [chemistry] subjectFuzzyOptions
     (clearSearchCache((Suc 0, subjectFuzzyOptions) \<mapsto>
         \<lparr>fuse = newFuse [biology] subjectFuzzyOptions, timestamp = 0\<rparr>)))
     (Suc 0, subjectFuzzyOptions)
   = Some \<lparr>fuse = newFuse [biology] subjectFuzzyOptions, timestamp = 0\<rparr>"
  by (simp add: createFuzzySearch_def clearExpiredCache_def Let_def CACHE_TTL_def)

lemma demo_cache_access:
  "fst (createFuzzySearch demoExt (now, later) [chemistry] subjectFuzzyOptions
     (clearSearchCache((Suc 0, subjectFuzzyOptions) \<mapsto>
         \<lparr>fuse = newFuse [biology] subjectFuzzyOptions, timestamp = 0\<rparr>)))
   = (if now > CACHE_TTL then newFuse [chemistry] subjectFuzzyOptions
      else newFuse [biology] subjectFuzzyOptions)"
  by (simp add: createFuzzySearch_def clearExpiredCache_def Let_def)

theorem createFuzzySearch_expiry_witness:
  "fst (createFuzzySearch demoExt (1000, 1000) [chemistry] subjectFuzzyOptions
          (snd (createFuzzySearch demoExt (0, 0) [biology] subjectFuzzyOptions clearSearchCache)))
     = newFuse [biology] subjectFuzzyOptions
   \<and> fst (createFuzzySearch demoExt (300001, 300001) [chemistry] subjectFuzzyOptions
          (snd (createFuzzySearch demoExt (0, 0) [biology] subjectFuzzyOptions clearSearchCache)))
     = newFuse [chemistry] subjectFuzzyOptions"
proof
  let ?c = "snd (createFuzzySearch demoExt (0, 0) [biology] subjectFuzzyOptions clearSearchCache)"
  let ?e = "\<lparr>fuse = newFuse [biology] subjectFuzzyOptions, timestamp = 0\<rparr>"
  let ?k = "getCacheKey demoExt [chemistry] subjectFuzzyOptions"
  have k: "?c ?k = Some ?e"
    by (simp add: demo_cache)
  have "(\<exists>e. ?c ?k = Some e \<and> fst (1000::int, 1000::int) - timestamp e \<le> CACHE_TTL
          \<and> fst (createFuzzySearch demoExt (1000, 1000) [chemistry] subjectFuzzyOptions ?c) = fuse e)
      \<or> ((\<forall>e. ?c ?k = Some e \<longrightarrow> CACHE_TTL < fst (1000::int, 1000::int) - timestamp e)
          \<and> fst (createFuzzySearch demoExt (1000, 1000) [chemistry] subjectFuzzyOptions ?c)
              = newFuse [chemistry] subjectFuzzyOptions)"
    using createFuzzySearch_expiry [of ?c demoExt "[chemistry]" subjectFuzzyOptions "(1000, 1000)"]
    by (rule conjunct1)
  then show "fst (createFuzzySearch demoExt (1000, 1000) [chemistry] subjectFuzzyOptions ?c)
      = newFuse [biology] subjectFuzzyOptions"
  proof
    assume "\<exists>e. ?c ?k = Some e \<and> fst (1000::int, 1000::int) - timestamp e \<le> CACHE_TTL
          \<and> fst (createFuzzySearch demoExt (1000, 1000) [chemistry] subjectFuzzyOptions ?c) = fuse e"
    then obtain e where "?c ?k = Some e"
      and "fst (createFuzzySearch demoExt (1000, 1000) [chemistry] subjectFuzzyOptions ?c) = fuse e"
      by blast
    with k show ?thesis by auto
  next
    assume "(\<forall>e. ?c ?k = Some e \<longrightarrow> CACHE_TTL < fst (1000::int, 1000::int) - timestamp e)
          \<and> fst (createFuzzySearch demoExt (1000, 1000) [chemistry] subjectFuzzyOptions ?c)
              = newFuse [chemistry] subjectFuzzyOptions"
    with k have "CACHE_TTL < fst (1000::int, 1000::int) - timestamp ?e"
      by blast
    then show ?thesis by (simp add: CACHE_TTL_def)
  qed
  have "(\<exists>e. ?c ?k = Some e \<and> fst (300001::int, 300001::int) - timestamp e \<le> CACHE_TTL
          \<and> fst (createFuzzySearch demoExt (300001, 300001) [chemistry] subjectFuzzyOptions ?c) = fuse e)
      \<or> ((\<forall>e. ?c ?k = Some e \<longrightarrow> CACHE_TTL < fst (300001::int, 300001::int) - timestamp e)
          \<and> fst (createFuzzySearch demoExt (300001, 300001) [chemistry] subjectFuzzyOptions ?c)
              = newFuse [chemistry] subjectFuzzyOptions)"
    using createFuzzySearch_expiry [of ?c demoExt "[chemistry]" subjectFuzzyOptions "(300001, 300001)"]
    by (rule conjunct1)
  then show "fst (createFuzzySearch demoExt (300001, 300001) [chemistry] subjectFuzzyOptions ?c)
      = newFuse [chemistry] subjectFuzzyOptions"
  proof
    assume "\<exists>e. ?c ?k = Some e \<and> fst (300001::int, 300001::int) - timestamp e \<le> CACHE_TTL
          \<and> fst (createFuzzySearch demoExt (300001, 300001) [chemistry] subjectFuzzyOptions ?c) = fuse e"
    then obtain e where "?c ?k = Some e" and "fst (300001::int, 300001::int) - timestamp e \<le> CACHE_TTL"
      by blast
    with k have "fst (300001::int, 300001::int) - timestamp ?e \<le> CACHE_TTL"
      by simp
    then show ?thesis by (simp add: CACHE_TTL_def)
  next
    assume "(\<forall>e. ?c ?k = Some e \<longrightarrow> CACHE_TTL < fst (300001::int, 300001::int) - timestamp e)
          \<and> fst (createFuzzySearch demoExt (300001, 300001) [chemistry] subjectFuzzyOptions ?c)
              = newFuse [chemistry] subjectFuzzyOptions"
    then show ?thesis by (rule conjunct2)
  qed
qed

text \<open>
  The claim as stated, that an index is reused only while \<open>now - timestamp\<close> is below five
  minutes, fails at the boundary: an index over Biology stored at time 0 under the key of
  one-element collections is returned for the one-element collection Chemistry at time
  300000, when \<open>now - timestamp\<close> is exactly five minutes, and its entry stays in the cache
  with its timestamp.
\<close>

theorem createFuzzySearch_reuse_at_ttl:
  "snd (createFuzzySearch demoExt (0, 0) [biology] subjectFuzzyOptions clearSearchCache)
     (getCacheKey demoExt [chemistry] subjectFuzzyOptions)
     = Some \<lparr>fuse = newFuse [biology] subjectFuzzyOptions, timestamp = 0\<rparr>
   \<and> fst (createFuzzySearch demoExt (300000, 300000) [chemistry] subjectFuzzyOptions
          (snd (createFuzzySearch demoExt (0, 0) [biology] subjectFuzzyOptions clearSearchCache)))
     = newFuse [biology] subjectFuzzyOptions
   \<and> snd (createFuzzySearch demoExt (300000, 300000) [chemistry] subjectFuzzyOptions
          (snd (createFuzzySearch demoExt (0, 0) [biology] subjectFuzzyOptions clearSearchCache)))
       (getCacheKey demoExt [chemistry] subjectFuzzyOptions)
     = Some \<lparr>fuse = newFuse [biology] subjectFuzzyOptions, timestamp = 0\<rparr>
   \<and> \<not> (300000 - 0 < CACHE_TTL)"
  by (simp add: demo_cache demo_cache_access demo_cache_kept) (simp add: CACHE_TTL_def)

lemma createFuzzySearch_repeat:
  assumes live: "\<forall>k e. cache k = Some e \<and> fst c1 - timestamp e \<le> CACHE_TTL
                   \<longrightarrow> fst c2 - timestamp e \<le> CACHE_TTL"
  shows "fst (createFuzzySearch ext c2 xs options (snd (createFuzzySearch ext c1 xs options cache)))
       = fst (createFuzzySearch ext c1 xs options cache)"
proof (cases "clearExpiredCache (fst c1) cache (getCacheKey ext xs options)")
  case None
  then show ?thesis
    by (simp add: createFuzzySearch_miss) (simp add: createFuzzySearch_def clearExpiredCache_def Let_def)
next
  case (Some e)
  then have e: "cache (getCacheKey ext xs options) = Some e" "fst c1 - timestamp e \<le> CACHE_TTL"
    by (simp_all add: clearExpiredCache_Some)
  with live have "fst c2 - timestamp e \<le> CACHE_TTL"
    by blast
  with e have "clearExpiredCache (fst c2) (clearExpiredCache (fst c1) cache) (getCacheKey ext xs options) = Some e"
    by (simp add: clearExpiredCache_Some)
  then show ?thesis
    using e by (simp add: createFuzzySearch_hit) (simp add: createFuzzySearch_def)
qed

section \<open>Properties of the course search\<close>

lemma isWhiteSpace_lowerChar [simp]: "isWhiteSpace (lowerChar c) = isWhiteSpace c"
  by (auto simp: lowerChar_def isWhiteSpace_def split: option.splits if_splits)







section \<open>Properties of the subject ranker\<close>

lemma foldl_bonus:
  "foldl (\<lambda>priority target. if P target then priority + c else priority) a ts
     = a + c * int (length (filter P ts))"
  by (induction ts arbitrary: a) (simp_all add: algebra_simps)

lemma subjectPriority_bonusSum: "subjectPriority nq targets s = bonusSum nq targets s"
  by (simp add: subjectPriority_def bonusSum_def Let_def foldl_bonus)

lemma aliasTargets_foldl:
  "foldl (\<lambda>targets (alias, ts). if C alias then targets @ ts else targets) acc entries
     = acc @ concat (map snd (filter (\<lambda>e. C (fst e)) entries))"
  by (induction entries arbitrary: acc) (auto split: prod.splits)

lemma normaliseSubjectQuery_targets:
  "normaliseSubjectQuery q als =
     (toLowerCase (trim q),
      case als of None \<Rightarrow> [] | Some entries \<Rightarrow> matchingTargets (toLowerCase (trim q)) entries)"
  by (simp add: normaliseSubjectQuery_def matchingTargets_def Let_def aliasTargets_foldl
      split: option.splits)

lemma containsSearch_docs: "item ` set (containsSearch flds f w) \<subseteq> set (docs f)"
  by (auto simp: containsSearch_def in_set_enumerate_eq)

lemma fuzzySubjects_index:
  assumes "\<forall>f w. item ` set (fuse_search ext f w) \<subseteq> set (docs f)"
    and "\<forall>e. cache (getCacheKey ext (map fst low) subjectFuzzyOptions) = Some e
              \<and> fst clock - timestamp e \<le> CACHE_TTL
           \<longrightarrow> set (docs (fuse e)) \<subseteq> fst ` set low"
  shows "set (fst (fuzzySubjects ext clock low nq cache)) \<subseteq> fst ` set low"
proof (cases "low = []")
  case True
  then show ?thesis by (simp add: fuzzySubjects_def)
next
  case False
  let ?key = "getCacheKey ext (map fst low) subjectFuzzyOptions"
  have d: "set (docs (fst (createFuzzySearch ext clock (map fst low) subjectFuzzyOptions cache)))
      \<subseteq> fst ` set low"
  proof (cases "clearExpiredCache (fst clock) cache ?key")
    case None
    then show ?thesis
      by (simp add: createFuzzySearch_miss newFuse_def)
  next
    case (Some e)
    then have e: "cache ?key = Some e" "fst clock - timestamp e \<le> CACHE_TTL"
      by (simp_all add: clearExpiredCache_Some)
    then have "set (docs (fuse e)) \<subseteq> fst ` set low"
      using assms(2) by blast
    moreover have "createFuzzySearch ext clock (map fst low) subjectFuzzyOptions cache
        = (fuse e, clearExpiredCache (fst clock) cache)"
      using e by (rule createFuzzySearch_hit)
    ultimately show ?thesis
      by simp
  qed
  let ?f = "fst (createFuzzySearch ext clock (map fst low) subjectFuzzyOptions cache)"
  have "item ` set (fuse_search ext ?f nq) \<subseteq> set (docs ?f)"
    using assms(1) by blast
  with d have "item ` set (fuse_search ext ?f nq) \<subseteq> fst ` set low"
    by blast
  then show ?thesis
    using False
    by (simp add: fuzzySubjects_def split_beta set_sortBy image_image)
qed

lemma searchSubjects_tiers:
  assumes "trim q \<noteq> []"
  shows "fst (searchSubjects ext clock subjs \<lparr>query = q, aliases = al, limit = lmt\<rparr> cache) =
    slice0
      (sort_key (\<lambda>s. - priorityFor q al s)
         (filter (\<lambda>s. 0 < priorityFor q al s) (map enrichSubject subjs))
       @ fst (fuzzySubjects ext clock
                (map (\<lambda>s. (s, priorityFor q al s))
                   (filter (\<lambda>s. priorityFor q al s = 0) (map enrichSubject subjs)))
                (toLowerCase (trim q)) cache))
      (case lmt of Some l \<Rightarrow> l | None \<Rightarrow> Fin 50)"
proof -
  have q: "q \<noteq> []"
    using assms by auto
  have p: "subjectPriority (toLowerCase (trim q))
      (case al of None \<Rightarrow> [] | Some entries \<Rightarrow> matchingTargets (toLowerCase (trim q)) entries)
      = priorityFor q al"
    by (simp add: priorityFor_def normaliseSubjectQuery_targets fun_eq_iff)
  show ?thesis
    using assms q
    by (simp add: searchSubjects_def normaliseSubjectQuery_targets p limitOf_def split_beta Let_def
        filter_map o_def sortBy_scored del: of_int_diff)
qed

text \<open>
  Claim C6, as amended. For a query that is not blank, the priority of a subject is the
  sum of all bonuses that apply: 100 and 50 for each alias target that the name equals or
  starts with, and 80, 40, 70 and 30 for the query against the name and the code. Suppose
  that the matcher returns only documents of its index, and that a live entry of the cache
  under the key of the subjects of priority 0 (their number and the fixed configuration),
  if there is one, holds an index over subjects of priority 0 of the list; this is so in
  particular when the cache holds no live entry under that key. Then the list that
  \<open>searchSubjects\<close> returns is, up to the limit, a block \<open>H\<close> followed by the fuzzy results
  \<open>F\<close>: \<open>H\<close> holds exactly the subjects of priority above 0, sorted descending by priority,
  subjects of equal priority in input order, and \<open>F\<close> holds only subjects of the list of
  priority 0. So the returned list is descending by priority, and every subject of
  priority above 0 in it stands before every subject of priority 0 in it. With the aliases
  \<open>methods \<mapsto> Mathematical Methods\<close> and the query \<open>methods\<close>, a subject named
  \<open>Mathematical Methods\<close> has priority at least 150 and so is in \<open>H\<close>, before every subject
  that is only matched fuzzily. Without the condition on the cache the list is still the
  block \<open>H\<close> followed by the results of the matcher (\<open>searchSubjects_tiers\<close>), but these
  need not have priority 0.
\<close>

theorem searchSubjects_priority_order:
  assumes "trim q \<noteq> []"
    and "\<forall>f w. item ` set (fuse_search ext f w) \<subseteq> set (docs f)"
    and "\<forall>e. cache (getCacheKey ext
                     (filter (\<lambda>s. priorityFor q al s = 0) (map enrichSubject subjs))
                     subjectFuzzyOptions) = Some e
              \<and> fst clock - timestamp e \<le> CACHE_TTL
           \<longrightarrow> set (docs (fuse e))
                 \<subseteq> set (filter (\<lambda>s. priorityFor q al s = 0) (map enrichSubject subjs))"
  shows "(\<exists>H F.
           fst (searchSubjects ext clock subjs \<lparr>query = q, aliases = al, limit = lmt\<rparr> cache)
             = slice0 (H @ F) (case lmt of Some l \<Rightarrow> l | None \<Rightarrow> Fin 50)
           \<and> mset H = mset (filter (\<lambda>s. 0 < priorityFor q al s) (map enrichSubject subjs))
           \<and> (\<forall>s \<in> set H. 0 < priorityFor q al s)
           \<and> sorted_wrt (\<lambda>a b. priorityFor q al b \<le> priorityFor q al a) H
           \<and> (\<forall>p. filter (\<lambda>s. priorityFor q al s = p) H =
                    filter (\<lambda>s. priorityFor q al s = p)
                      (filter (\<lambda>s. 0 < priorityFor q al s) (map enrichSubject subjs)))
           \<and> (\<forall>s \<in> set F. priorityFor q al s = 0 \<and> s \<in> set (map enrichSubject subjs)))
       \<and> sorted_wrt (\<lambda>a b. priorityFor q al b \<le> priorityFor q al a)
            (fst (searchSubjects ext clock subjs \<lparr>query = q, aliases = al, limit = lmt\<rparr> cache))
       \<and> (\<forall>i j. i < length (fst (searchSubjects ext clock subjs
                                    \<lparr>query = q, aliases = al, limit = lmt\<rparr> cache))
                \<and> j < length (fst (searchSubjects ext clock subjs
                                      \<lparr>query = q, aliases = al, limit = lmt\<rparr> cache))
                \<and> 0 < priorityFor q al
                        (fst (searchSubjects ext clock subjs
                                \<lparr>query = q, aliases = al, limit = lmt\<rparr> cache) ! i)
                \<and> priorityFor q al
                    (fst (searchSubjects ext clock subjs
                            \<lparr>query = q, aliases = al, limit = lmt\<rparr> cache) ! j) = 0
              \<longrightarrow> i < j)
       \<and> (\<forall>s. priorityFor q al s =
              bonusSum (toLowerCase (trim q))
                (case al of None \<Rightarrow> []
                 | Some entries \<Rightarrow> matchingTargets (toLowerCase (trim q)) entries) s)
       \<and> (\<forall>s. subject.name s = ''Mathematical Methods'' \<longrightarrow>
              150 \<le> priorityFor ''methods'' (Some [(''methods'', [''Mathematical Methods''])]) s)"
proof -
  let ?prio = "priorityFor q al"
  let ?en = "map enrichSubject subjs"
  let ?H = "sort_key (\<lambda>s. - ?prio s) (filter (\<lambda>s. 0 < ?prio s) ?en)"
  let ?low = "map (\<lambda>s. (s, ?prio s)) (filter (\<lambda>s. ?prio s = 0) ?en)"
  let ?F = "fst (fuzzySubjects ext clock ?low (toLowerCase (trim q)) cache)"
  let ?r = "fst (searchSubjects ext clock subjs \<lparr>query = q, aliases = al, limit = lmt\<rparr> cache)"
  have r: "?r = slice0 (?H @ ?F) (case lmt of Some l \<Rightarrow> l | None \<Rightarrow> Fin 50)"
    using assms(1) by (rule searchSubjects_tiers)
  have H1: "mset ?H = mset (filter (\<lambda>s. 0 < ?prio s) ?en)"
    by simp
  have H2: "\<forall>s \<in> set ?H. 0 < ?prio s"
    by simp
  have "sorted (map (\<lambda>s. - ?prio s) ?H)"
    by (rule sorted_sort_key)
  then have H3: "sorted_wrt (\<lambda>a b. ?prio b \<le> ?prio a) ?H"
    by (simp add: sorted_map)
  have H4: "\<forall>p. filter (\<lambda>s. ?prio s = p) ?H
      = filter (\<lambda>s. ?prio s = p) (filter (\<lambda>s. 0 < ?prio s) ?en)"
  proof
    fix p
    show "filter (\<lambda>s. ?prio s = p) ?H
      = filter (\<lambda>s. ?prio s = p) (filter (\<lambda>s. 0 < ?prio s) ?en)"
      using sort_key_stable [of "\<lambda>s. - ?prio s" "- p" "filter (\<lambda>s. 0 < ?prio s) ?en"] by simp
  qed
  have l: "map fst ?low = filter (\<lambda>s. ?prio s = 0) ?en"
    by (simp add: o_def)
  have l': "fst ` set ?low = set (filter (\<lambda>s. ?prio s = 0) ?en)"
    by (simp only: set_map [symmetric] l)
  have c: "\<forall>e. cache (getCacheKey ext (map fst ?low) subjectFuzzyOptions) = Some e
              \<and> fst clock - timestamp e \<le> CACHE_TTL
           \<longrightarrow> set (docs (fuse e)) \<subseteq> fst ` set ?low"
    using assms(3) by (simp only: l l')
  have "set ?F \<subseteq> fst ` set ?low"
    using assms(2) c by (rule fuzzySubjects_index)
  then have sub: "set ?F \<subseteq> set (filter (\<lambda>s. ?prio s = 0) ?en)"
    by (simp only: l')
  have F1: "\<forall>s \<in> set ?F. ?prio s = 0 \<and> s \<in> set ?en"
    using sub by auto
  then have F0: "\<forall>s \<in> set ?F. ?prio s = 0"
    by blast
  have "sorted_wrt (\<lambda>a b. ?prio b \<le> ?prio a) (?H @ ?F)"
    using H3 F0 H2 by (rule sorted_wrt_tiers)
  then have s: "sorted_wrt (\<lambda>a b. ?prio b \<le> ?prio a) ?r"
    by (simp only: r sorted_wrt_slice0)
  have o: "\<forall>i j. i < length ?r \<and> j < length ?r \<and> 0 < ?prio (?r ! i) \<and> ?prio (?r ! j) = 0
      \<longrightarrow> i < j"
    using sorted_wrt_precedes [OF s] by blast
  have b: "\<forall>s. ?prio s = bonusSum (toLowerCase (trim q))
      (case al of None \<Rightarrow> [] | Some entries \<Rightarrow> matchingTargets (toLowerCase (trim q)) entries) s"
    by (simp add: priorityFor_def normaliseSubjectQuery_targets subjectPriority_bonusSum)
  have m: "\<forall>s. subject.name s = ''Mathematical Methods'' \<longrightarrow>
      150 \<le> priorityFor ''methods'' (Some [(''methods'', [''Mathematical Methods''])]) s"
  proof (intro allI impI)
    fix s :: subject
    assume n: "subject.name s = ''Mathematical Methods''"
    have t: "toLowerCase (trim ''methods'') = ''methods''"
      by code_simp
    have mt: "matchingTargets ''methods'' [(''methods'', [''Mathematical Methods''])]
      = [''Mathematical Methods'']"
      by (simp add: matchingTargets_def)
    show "150 \<le> priorityFor ''methods'' (Some [(''methods'', [''Mathematical Methods''])]) s"
      using n
      by (simp add: priorityFor_def normaliseSubjectQuery_targets subjectPriority_bonusSum t mt
          bonusSum_def startsWith_def)
  qed
  have e: "\<exists>H F. ?r = slice0 (H @ F) (case lmt of Some l \<Rightarrow> l | None \<Rightarrow> Fin 50)
      \<and> mset H = mset (filter (\<lambda>s. 0 < ?prio s) ?en)
      \<and> (\<forall>s \<in> set H. 0 < ?prio s)
      \<and> sorted_wrt (\<lambda>a b. ?prio b \<le> ?prio a) H
      \<and> (\<forall>p. filter (\<lambda>s. ?prio s = p) H
            = filter (\<lambda>s. ?prio s = p) (filter (\<lambda>s. 0 < ?prio s) ?en))
      \<and> (\<forall>s \<in> set F. ?prio s = 0 \<and> s \<in> set ?en)"
    using r H1 H2 H3 H4 F1 by blast
  from e s o b m show ?thesis
    by (intro conjI)
qed

theorem searchSubjects_priority_order_witness:
  "trim ''chem'' \<noteq> []
   \<and> fst (searchSubjects demoExt (1000, 1000) [biochemistry, chemistry, physics] chemQuery
          clearSearchCache)
       = [enrichSubject chemistry, enrichSubject biochemistry]
   \<and> map (priorityFor ''chem'' None) [enrichSubject chemistry, enrichSubject biochemistry]
       = [40, 0]
   \<and> sorted_wrt (\<lambda>a b. priorityFor ''chem'' None b \<le> priorityFor ''chem'' None a)
        (fst (searchSubjects demoExt (1000, 1000) [biochemistry, chemistry, physics] chemQuery
           clearSearchCache))
   \<and> take 1 (fst (searchSubjects demoExt (0, 0) [generalMaths, mathMethods]
        \<lparr>query = ''methods'', aliases = Some [(''methods'', [''Mathematical Methods''])],
         limit = None\<rparr> clearSearchCache)) = [enrichSubject mathMethods]
   \<and> priorityFor ''methods'' (Some [(''methods'', [''Mathematical Methods''])])
        (enrichSubject mathMethods) = 150"
proof -
  have h: "trim ''chem'' \<noteq> []"
    by code_simp
  have d: "\<forall>f w. item ` set (fuse_search demoExt f w) \<subseteq> set (docs f)"
    by (simp add: demoExt_def containsSearch_docs)
  have c: "\<forall>e. (clearSearchCache :: (nat \<times> searchOptions, subject) searchCache)
                 (getCacheKey demoExt
                    (filter (\<lambda>s. priorityFor ''chem'' None s = 0)
                       (map enrichSubject [biochemistry, chemistry, physics]))
                    subjectFuzzyOptions) = Some e
              \<and> fst (1000::int, 1000::int) - timestamp e \<le> CACHE_TTL
           \<longrightarrow> set (docs (fuse e))
                 \<subseteq> set (filter (\<lambda>s. priorityFor ''chem'' None s = 0)
                          (map enrichSubject [biochemistry, chemistry, physics]))"
    by (simp only: clearSearchCache_apply) simp
  note T = searchSubjects_priority_order [where q = "''chem''" and ext = demoExt
      and cache = clearSearchCache and al = None and subjs = "[biochemistry, chemistry, physics]"
      and clock = "(1000, 1000)" and lmt = None, OF h d c]
  have s: "sorted_wrt (\<lambda>a b. priorityFor ''chem'' None b \<le> priorityFor ''chem'' None a)
        (fst (searchSubjects demoExt (1000, 1000) [biochemistry, chemistry, physics] chemQuery
           clearSearchCache))"
    unfolding chemQuery_def by (rule T [THEN conjunct2, THEN conjunct1])
  have r: "fst (searchSubjects demoExt (1000, 1000) [biochemistry, chemistry, physics] chemQuery
          clearSearchCache)
       = [enrichSubject chemistry, enrichSubject biochemistry]"
    by code_simp
  have p: "map (priorityFor ''chem'' None) [enrichSubject chemistry, enrichSubject biochemistry]
       = [40, 0]"
    by code_simp
  have a: "take 1 (fst (searchSubjects demoExt (0, 0) [generalMaths, mathMethods]
        \<lparr>query = ''methods'', aliases = Some [(''methods'', [''Mathematical Methods''])],
         limit = None\<rparr> clearSearchCache)) = [enrichSubject mathMethods]"
    by code_simp
  have b: "priorityFor ''methods'' (Some [(''methods'', [''Mathematical Methods''])])
        (enrichSubject mathMethods) = 150"
    by code_simp
  from h r p s a b show ?thesis
    by (intro conjI)
qed

text \<open>
  Without the condition on the cache the order fails. \<open>physCache\<close> is the cache left by a
  search for \<open>phys\<close> in Biochemistry, Chemistry and Physics at time 0: Physics has priority
  40, and the index over the other two, Biochemistry and Chemistry, is stored under the key
  of two-element collections. A search for \<open>chem\<close> in the same three subjects one second
  later gives Chemistry priority 40 and looks up the index for the other two, Biochemistry
  and Physics, under the same key; it is handed the index over Biochemistry and Chemistry,
  which matches both. The list returned is Chemistry, Biochemistry, Chemistry, of
  priorities 40, 0 and 40: a subject of priority 0 stands before one of priority 40.
\<close>

theorem searchSubjects_stale_index_order:
  "physCache (getCacheKey demoExt [enrichSubject biochemistry, enrichSubject physics]
       subjectFuzzyOptions)
     = Some \<lparr>fuse = newFuse [enrichSubject biochemistry, enrichSubject chemistry]
                subjectFuzzyOptions, timestamp = 0\<rparr>
   \<and> trim ''chem'' \<noteq> []
   \<and> fst (searchSubjects demoExt (1000, 1000) [biochemistry, chemistry, physics] chemQuery
          physCache)
     = [enrichSubject chemistry, enrichSubject biochemistry, enrichSubject chemistry]
   \<and> map (priorityFor ''chem'' None)
        (fst (searchSubjects demoExt (1000, 1000) [biochemistry, chemistry, physics] chemQuery
           physCache))
     = [40, 0, 40]
   \<and> \<not> sorted_wrt (\<lambda>a b. priorityFor ''chem'' None b \<le> priorityFor ''chem'' None a)
        (fst (searchSubjects demoExt (1000, 1000) [biochemistry, chemistry, physics] chemQuery
           physCache))"
  by code_simp

section \<open>Repeated calls\<close>

lemma fuzzySubjects_repeat:
  assumes "\<forall>k e. cache k = Some e \<and> fst c1 - timestamp e \<le> CACHE_TTL
              \<longrightarrow> fst c2 - timestamp e \<le> CACHE_TTL"
  shows "fst (fuzzySubjects ext c2 low nq (snd (fuzzySubjects ext c1 low nq cache)))
       = fst (fuzzySubjects ext c1 low nq cache)"
  using createFuzzySearch_repeat [OF assms, of ext "map fst low" subjectFuzzyOptions]
  by (simp add: fuzzySubjects_def split_beta)

lemma searchSubjects_repeat:
  assumes "\<forall>k e. cache k = Some e \<and> fst c1 - timestamp e \<le> CACHE_TTL
              \<longrightarrow> fst c2 - timestamp e \<le> CACHE_TTL"
  shows "fst (searchSubjects ext c2 subjs so (snd (searchSubjects ext c1 subjs so cache)))
       = fst (searchSubjects ext c1 subjs so cache)"
  by (simp add: searchSubjects_def split_beta Let_def fuzzySubjects_repeat [OF assms])

lemma searchCourses_repeat:
  assumes "\<forall>k e. cache k = Some e \<and> fst c1 - timestamp e \<le> CACHE_TTL
              \<longrightarrow> fst c2 - timestamp e \<le> CACHE_TTL"
  shows "fst (searchCourses ext c2 courses co (snd (searchCourses ext c1 courses co cache)))
       = fst (searchCourses ext c1 courses co cache)"
  by (simp add: searchCourses_def split_beta Let_def createFuzzySearch_repeat [OF assms]
      split: option.splits)

text \<open>
  Claim C9, as amended. When no entry of the cache that is live at the first call has
  expired at the second, \<open>searchSubjects\<close> and \<open>searchCourses\<close> called twice in succession
  with the same arguments, the second call in the cache that the first has left, return
  the same list in the same order. This is so in particular when the cache is empty at
  the first call, and whenever the second call reads the same time as the first.
\<close>

theorem repeated_search_same_output:
  assumes "\<forall>k e. cache k = Some e \<and> fst c1 - timestamp e \<le> CACHE_TTL
              \<longrightarrow> fst c2 - timestamp e \<le> CACHE_TTL"
    and "\<forall>k e. ccache k = Some e \<and> fst c1 - timestamp e \<le> CACHE_TTL
              \<longrightarrow> fst c2 - timestamp e \<le> CACHE_TTL"
  shows "fst (searchSubjects ext c2 subjs so (snd (searchSubjects ext c1 subjs so cache)))
           = fst (searchSubjects ext c1 subjs so cache)
       \<and> fst (searchCourses cext c2 courses co (snd (searchCourses cext c1 courses co ccache)))
           = fst (searchCourses cext c1 courses co ccache)"
  using searchSubjects_repeat [OF assms(1)] searchCourses_repeat [OF assms(2)] by simp

lemma staleCache_entries:
  assumes "staleCache k = Some e"
  shows "timestamp e = 0"
proof -
  have "snd (fuzzySubjects demoExt (0, 0) low nq clearSearchCache) k = Some e \<Longrightarrow> timestamp e = 0"
    for low nq
    by (auto simp: fuzzySubjects_def createFuzzySearch_empty split: if_splits)
  then show ?thesis
    using assms
    by (simp add: staleCache_def searchSubjects_def split_beta Let_def split: if_splits)
qed

theorem repeated_search_same_output_witness:
  "fst (searchSubjects demoExt (2000, 2000) [chemistry] emistryQuery
          (snd (searchSubjects demoExt (1000, 1000) [chemistry] emistryQuery staleCache)))
     = fst (searchSubjects demoExt (1000, 1000) [chemistry] emistryQuery staleCache)
   \<and> fst (searchCourses demoCourseExt (2000, 2000) demoCourses
          \<lparr>searchTerm = Some ''arts'', category = None, atar = Some (Fin 90), limit = None\<rparr>
          (snd (searchCourses demoCourseExt (1000, 1000) demoCourses
             \<lparr>searchTerm = Some ''arts'', category = None, atar = Some (Fin 90), limit = None\<rparr>
             clearSearchCache)))
     = fst (searchCourses demoCourseExt (1000, 1000) demoCourses
          \<lparr>searchTerm = Some ''arts'', category = None, atar = Some (Fin 90), limit = None\<rparr>
          clearSearchCache)"
proof -
  have a: "\<forall>k e. staleCache k = Some e \<and> fst (1000::int, 1000::int) - timestamp e \<le> CACHE_TTL
              \<longrightarrow> fst (2000::int, 2000::int) - timestamp e \<le> CACHE_TTL"
    by (auto simp: CACHE_TTL_def dest: staleCache_entries)
  have b: "\<forall>k e. (clearSearchCache :: (nat \<times> searchOptions, enrichedCourse) searchCache) k = Some e
              \<and> fst (1000::int, 1000::int) - timestamp e \<le> CACHE_TTL
              \<longrightarrow> fst (2000::int, 2000::int) - timestamp e \<le> CACHE_TTL"
    by simp
  show ?thesis
    using a b by (rule repeated_search_same_output)
qed

text \<open>
  Without the condition the claim fails. \<open>staleCache\<close> is the cache left by a search for
  \<open>emistry\<close> in the one subject Biology at time 0: it holds an index over Biology under
  the key of one-element collections. A search for \<open>emistry\<close> in the one subject Chemistry
  at time 300000 reuses that index and finds nothing; the same search one millisecond
  later finds the entry expired, builds an index over Chemistry, and returns it.
\<close>

theorem repeated_search_after_expiry:
  "staleCache (getCacheKey demoExt [enrichSubject chemistry] subjectFuzzyOptions)
     = Some \<lparr>fuse = newFuse [enrichSubject biology] subjectFuzzyOptions, timestamp = 0\<rparr>
   \<and> fst (searchSubjects demoExt (300000, 300000) [chemistry] emistryQuery staleCache) = []
   \<and> fst (searchSubjects demoExt (300001, 300001) [chemistry] emistryQuery
          (snd (searchSubjects demoExt (300000, 300000) [chemistry] emistryQuery staleCache)))
       = [enrichSubject chemistry]"
  by code_simp

end
